theory Spec2Isabelle
  imports Main "HOL-Library.AList"
begin

section \<open>The data the type-merging engine reads\<close>

text \<open>
  The development embeds \<^verbatim>\<open>packages/stitch/src/mergeCandidates.ts\<close>. Every JavaScript
  \<^verbatim>\<open>throw new Error(msg)\<close> is the value \<open>Inl (Error msg)\<close>; a function that can throw
  returns \<open>error + 'a\<close>.
\<close>

datatype error = Error string

text \<open>
  The messages of the two errors that name a type or a field. \<open>dq\<close> is the double quote
  that the first puts around the name.
\<close>

definition dq :: string where
  "dq = [CHR 0x22]"

definition MultipleCanonicalError :: "string \<Rightarrow> error" where
  "MultipleCanonicalError what = Error (''Multiple canonical definitions for '' @ dq @ what @ dq)"

definition CategoryMismatchError :: "string \<Rightarrow> error" where
  "CategoryMismatchError typeName =
     Error (''Cannot merge different type categories into common type '' @ typeName @ ''.'')"

text \<open>
  A field's GraphQL type reference. \<open>isNullableType\<close> and \<open>getNullableType\<close> are the two
  functions the merger imports from graphql-js: a type is nullable unless its outermost
  wrapper is non-null, and the nullable form strips that outermost wrapper.
\<close>

datatype gql_type = NamedType string | ListType gql_type | NonNullType gql_type

fun isNullableType :: "gql_type \<Rightarrow> bool" where
  "isNullableType (NonNullType t) = False"
| "isNullableType t = True"

fun getNullableType :: "gql_type \<Rightarrow> gql_type" where
  "getNullableType (NonNullType t) = t"
| "getNullableType t = t"

text \<open>
  Syntax-tree nodes are opaque to the merger except for the \<^verbatim>\<open>fields\<close> property, which
  the object, interface and input mergers overwrite on a synthesised trailing node.
\<close>

datatype ast = AstNode (ast_label: string) (ast_fields: "ast list")

text \<open>Values stored under the keys of an \<^verbatim>\<open>extensions\<close> object (merged shallowly).\<close>

datatype js_value = JNull | JBool bool | JNum int | JStr string

text \<open>A JavaScript function object (a scalar's serializer or parser), known by identity.\<close>

datatype js_function = Function nat

record field_config =
  fc_type :: gql_type
  fc_description :: "string option"
  fc_args :: "(string \<times> gql_type) list"
  fc_astNode :: "ast option"

record input_field_config =
  ifc_type :: gql_type
  ifc_description :: "string option"
  ifc_defaultValue :: "js_value option"
  ifc_astNode :: "ast option"

record enum_value_config =
  evc_value :: "js_value option"
  evc_description :: "string option"
  evc_astNode :: "ast option"

text \<open>
  An interface (or a union's member type) as another type refers to it: the merger reads
  its name and otherwise keeps the object itself, so the object's identity is carried.
\<close>

record type_ref =
  ref_name :: string
  ref_ident :: nat

text \<open>
  The six classes of named types, each with what its \<^verbatim>\<open>toConfig()\<close> adds to the common
  properties. Field maps, value maps and the like are JavaScript objects read in insertion
  order: association lists.
\<close>

datatype type_kind =
    ObjectKind "(string \<times> field_config) list" "type_ref list"
  | InputObjectKind "(string \<times> input_field_config) list"
  | InterfaceKind "(string \<times> field_config) list" "type_ref list"
  | UnionKind "type_ref list"
  | EnumKind "(string \<times> enum_value_config) list"
  | ScalarKind "js_function option" "js_function option" "js_function option" "string option"

datatype gql_constructor =
    GraphQLObjectType | GraphQLInputObjectType | GraphQLInterfaceType
  | GraphQLUnionType | GraphQLEnumType | GraphQLScalarType

record named_type =
  name :: string
  description :: "string option"
  astNode :: "ast option"
  extensionASTNodes :: "ast list option"
  extensions :: "(string \<rightharpoonup> js_value) option"
  kind :: type_kind

fun constructor_of :: "named_type \<Rightarrow> gql_constructor" where
  "constructor_of t =
     (case kind t of
        ObjectKind fs is \<Rightarrow> GraphQLObjectType
      | InputObjectKind fs \<Rightarrow> GraphQLInputObjectType
      | InterfaceKind fs is \<Rightarrow> GraphQLInterfaceType
      | UnionKind ts \<Rightarrow> GraphQLUnionType
      | EnumKind vs \<Rightarrow> GraphQLEnumType
      | ScalarKind s pv pl u \<Rightarrow> GraphQLScalarType)"

text \<open>
  The merge configuration a subgraph carries: per type name a \<^verbatim>\<open>canonical\<close> flag and per
  field name another. An absent flag, an absent \<^verbatim>\<open>fields\<close> or an absent \<^verbatim>\<open>merge\<close> reads
  as falsy through the optional chaining of the source, so absent is \<open>False\<close> or \<open>[]\<close>.
\<close>

record merged_field_config =
  mfc_canonical :: bool

record merged_type_config =
  mtc_canonical :: bool
  mtc_fields :: "(string \<times> merged_field_config) list"

text \<open>
  \<^verbatim>\<open>isSubschemaConfig\<close> comes from @graphql-tools/delegate and is not part of this
  repository; there it is \<^verbatim>\<open>Boolean(value?.schema)\<close>. The record keeps whether the
  \<^verbatim>\<open>schema\<close> property is present, and an absent \<^verbatim>\<open>transformedSubschema\<close> is \<open>None\<close>.
\<close>

record transformed_subschema =
  has_schema :: bool
  merge :: "(string \<times> merged_type_config) list"

definition isSubschemaConfig :: "transformed_subschema option \<Rightarrow> bool" where
  "isSubschemaConfig ts = (case ts of None \<Rightarrow> False | Some s \<Rightarrow> has_schema s)"

text \<open>\<^verbatim>\<open>transformedSubschema.merge?.[typeName]\<close>\<close>

definition mergeConfigOf :: "transformed_subschema option \<Rightarrow> string \<Rightarrow> merged_type_config option" where
  "mergeConfigOf ts typeName = (case ts of None \<Rightarrow> None | Some s \<Rightarrow> map_of (merge s) typeName)"

text \<open>\<^verbatim>\<open>transformedSubschema.merge?.[typeName]?.canonical\<close>, read for its truthiness.\<close>

definition typeIsCanonical :: "transformed_subschema option \<Rightarrow> string \<Rightarrow> bool" where
  "typeIsCanonical ts typeName =
     (case mergeConfigOf ts typeName of None \<Rightarrow> False | Some mc \<Rightarrow> mtc_canonical mc)"

text \<open>\<^verbatim>\<open>transformedSubschema.merge?.[typeName]?.fields?.[fieldName]?.canonical\<close>\<close>

definition fieldIsCanonical :: "transformed_subschema option \<Rightarrow> string \<Rightarrow> string \<Rightarrow> bool" where
  "fieldIsCanonical ts typeName fieldName =
     (case mergeConfigOf ts typeName of
        None \<Rightarrow> False
      | Some mc \<Rightarrow> (case map_of (mtc_fields mc) fieldName of
                     None \<Rightarrow> False
                   | Some f \<Rightarrow> mfc_canonical f))"

record candidate =
  c_type :: named_type
  c_subschema :: "nat option"
  c_transformedSubschema :: "transformed_subschema option"

record field_candidate =
  fieldConfig :: field_config
  fieldName :: string
  f_type :: named_type
  f_subschema :: "nat option"
  f_transformedSubschema :: "transformed_subschema option"

record input_field_candidate =
  inputFieldConfig :: input_field_config
  i_fieldName :: string
  i_type :: named_type
  i_subschema :: "nat option"
  i_transformedSubschema :: "transformed_subschema option"

record enum_value_candidate =
  enumValueConfig :: enum_value_config
  enumValue :: string
  e_type :: named_type
  e_subschema :: "nat option"
  e_transformedSubschema :: "transformed_subschema option"

section \<open>The default field-config merger\<close>

text \<open>
  The four arrays that the loop of \<^verbatim>\<open>defaultFieldConfigMerger\<close> fills, and one turn of
  that loop. A candidate that \<^verbatim>\<open>isSubschemaConfig\<close> rejects is skipped by \<^verbatim>\<open>continue\<close>
  before any array is touched.
\<close>

record tallies =
  nullables :: "field_config list"
  nonNullables :: "field_config list"
  canonicalByField :: "field_config list"
  canonicalByType :: "field_config list"

definition no_tallies :: tallies where
  "no_tallies = \<lparr>nullables = [], nonNullables = [], canonicalByField = [], canonicalByType = []\<rparr>"

definition tally_step :: "tallies \<Rightarrow> field_candidate \<Rightarrow> tallies" where
  "tally_step t c =
     (if \<not> isSubschemaConfig (f_transformedSubschema c) then t
      else
        let t1 =
              (if fieldIsCanonical (f_transformedSubschema c) (name (f_type c)) (fieldName c)
               then t\<lparr>canonicalByField := canonicalByField t @ [fieldConfig c]\<rparr>
               else if typeIsCanonical (f_transformedSubschema c) (name (f_type c))
               then t\<lparr>canonicalByType := canonicalByType t @ [fieldConfig c]\<rparr>
               else t)
        in if isNullableType (fc_type (fieldConfig c))
           then t1\<lparr>nullables := nullables t1 @ [fieldConfig c]\<rparr>
           else t1\<lparr>nonNullables := nonNullables t1 @ [fieldConfig c]\<rparr>)"

text \<open>
  \<^verbatim>\<open>getDefaultFieldConfigMerger(useNonNullableFieldOnConflict = false)\<close>: the argument is
  \<open>None\<close> when the caller passes \<^verbatim>\<open>undefined\<close>, and the default then applies. The three
  returning branches each repeat the relaxation of the type, as the source does.
\<close>

definition getDefaultFieldConfigMerger ::
  "bool option \<Rightarrow> field_candidate list \<Rightarrow> error + field_config" where
  "getDefaultFieldConfigMerger useNonNullableFieldOnConflict candidates =
     (let flag = (case useNonNullableFieldOnConflict of None \<Rightarrow> False | Some b \<Rightarrow> b);
          t = foldl tally_step no_tallies candidates;
          nonNullableFinalField =
            (length (nonNullables t) > 0 \<and> length (nullables t) > 0 \<and> flag)
      in if length (canonicalByField t) > 1 \<and> candidates \<noteq> [] then
           Inl (MultipleCanonicalError
                  (name (f_type (hd candidates)) @ ''.'' @ fieldName (hd candidates)))
         else
           (case canonicalByField t of
              finalField # rest \<Rightarrow>
                (if nonNullableFinalField
                 then Inr (finalField\<lparr>fc_type := getNullableType (fc_type finalField)\<rparr>)
                 else Inr finalField)
            | [] \<Rightarrow>
                (case canonicalByType t of
                   finalField # rest \<Rightarrow>
                     (if nonNullableFinalField
                      then Inr (finalField\<lparr>fc_type := getNullableType (fc_type finalField)\<rparr>)
                      else Inr finalField)
                 | [] \<Rightarrow>
                     (if candidates = [] then Inl (Error ''Field config is required'')
                      else
                        let finalField = fieldConfig (last candidates)
                        in if nonNullableFinalField
                           then Inr (finalField\<lparr>fc_type := getNullableType (fc_type finalField)\<rparr>)
                           else Inr finalField))))"

section \<open>Candidates, options and the functions the merger calls from outside\<close>

text \<open>
  JavaScript compares two candidates by reference (\<^verbatim>\<open>c !== candidate\<close>). A candidate
  list is therefore a list of references into a store of candidate objects, and the same
  object may stand in a list more than once.
\<close>

type_synonym cand_ref = nat

type_synonym cand_store = "cand_ref \<Rightarrow> candidate"

text \<open>
  \<^verbatim>\<open>TypeMergingOptions\<close>: the replaceable stages and the nullability toggle, each absent
  (\<open>None\<close>) unless the caller supplied it. A supplied function may throw.
\<close>

record options =
  typeCandidateMerger :: "(cand_store \<Rightarrow> cand_ref list \<Rightarrow> error + cand_ref) option"
  typeDescriptionsMerger :: "(candidate list \<Rightarrow> error + string option) option"
  fieldConfigMerger :: "(field_candidate list \<Rightarrow> error + field_config) option"
  inputFieldConfigMerger :: "(input_field_candidate list \<Rightarrow> error + input_field_config) option"
  enumValueConfigMerger :: "(enum_value_candidate list \<Rightarrow> error + enum_value_config) option"
  useNonNullableFieldOnConflict :: "bool option"

text \<open>
  What the file imports and this development takes as parameters: the syntax-tree mergers
  of @graphql-tools/merge (called with the fixed option objects of the source), and the
  three validators of \<^verbatim>\<open>./mergeValidations.js\<close>, which return silently (\<open>None\<close>) or throw.
\<close>

record externals =
  mergeType :: "ast \<Rightarrow> ast \<Rightarrow> ast"
  mergeInputType :: "ast \<Rightarrow> ast \<Rightarrow> ast"
  mergeInterface :: "ast \<Rightarrow> ast \<Rightarrow> ast"
  mergeUnion :: "ast \<Rightarrow> ast \<Rightarrow> ast"
  mergeEnum :: "ast \<Rightarrow> ast \<Rightarrow> ast"
  mergeScalar :: "ast \<Rightarrow> ast \<Rightarrow> ast"
  validateFieldConsistency ::
    "field_config \<Rightarrow> field_candidate list \<Rightarrow> options option \<Rightarrow> error option"
  validateInputFieldConsistency ::
    "input_field_config \<Rightarrow> input_field_candidate list \<Rightarrow> options option \<Rightarrow> error option"
  validateInputObjectConsistency ::
    "(string \<times> nat) list \<Rightarrow> candidate list \<Rightarrow> options option \<Rightarrow> error option"

text \<open>
  The configuration object handed to the constructor of the merged type. The source stores
  under \<^verbatim>\<open>extensionASTNodes\<close> what \<^verbatim>\<open>pluck\<close> returns: one array per candidate.
\<close>

record merged_type =
  m_name :: string
  m_description :: "string option"
  m_kind :: type_kind
  m_astNode :: "ast option"
  m_extensionASTNodes :: "ast list list"
  m_extensions :: "string \<rightharpoonup> js_value"

section \<open>Ordering and the canonical candidate\<close>

text \<open>The arrow function that \<^verbatim>\<open>defaultTypeCandidateMerger\<close> filters with.\<close>

definition isCanonicalCandidate :: "candidate \<Rightarrow> bool" where
  "isCanonicalCandidate c =
     (if isSubschemaConfig (c_transformedSubschema c)
      then typeIsCanonical (c_transformedSubschema c) (name (c_type c))
      else False)"

text \<open>
  The two \<^verbatim>\<open>if (!canonical[0])\<close> guards of the source cannot fire: they stand where the
  array has an element.
\<close>

definition defaultTypeCandidateMerger :: "cand_store \<Rightarrow> cand_ref list \<Rightarrow> error + cand_ref" where
  "defaultTypeCandidateMerger heap candidates =
     (let canonical = filter (\<lambda>r. isCanonicalCandidate (heap r)) candidates
      in if length canonical > 1 then
           Inl (MultipleCanonicalError (name (c_type (heap (hd canonical)))))
         else if length canonical > 0 then Inr (hd canonical)
         else if candidates = [] then Inl (Error ''Last canonical is required'')
         else Inr (last candidates))"

definition orderedTypeCandidates ::
  "cand_store \<Rightarrow> cand_ref list \<Rightarrow> options option \<Rightarrow> error + cand_ref list" where
  "orderedTypeCandidates heap candidates typeMergingOptions =
     (let merger =
            (case typeMergingOptions of
               None \<Rightarrow> defaultTypeCandidateMerger
             | Some opts \<Rightarrow> (case typeCandidateMerger opts of
                              None \<Rightarrow> defaultTypeCandidateMerger
                            | Some f \<Rightarrow> f))
      in case merger heap candidates of
           Inl e \<Rightarrow> Inl e
         | Inr candidate \<Rightarrow> Inr (filter (\<lambda>c. c \<noteq> candidate) candidates @ [candidate]))"

definition defaultTypeDescriptionMerger :: "candidate list \<Rightarrow> string option" where
  "defaultTypeDescriptionMerger candidates =
     (if candidates = [] then None else description (c_type (last candidates)))"

definition mergeTypeDescriptions :: "candidate list \<Rightarrow> options option \<Rightarrow> error + string option" where
  "mergeTypeDescriptions candidates typeMergingOptions =
     (case typeMergingOptions of
        None \<Rightarrow> Inr (defaultTypeDescriptionMerger candidates)
      | Some opts \<Rightarrow> (case typeDescriptionsMerger opts of
                       None \<Rightarrow> Inr (defaultTypeDescriptionMerger candidates)
                     | Some f \<Rightarrow> f candidates))"

section \<open>Steps shared by the six mergers\<close>

text \<open>\<^verbatim>\<open>pluck\<close>: read one property of every candidate's type and drop the null ones.\<close>

definition pluck :: "(named_type \<Rightarrow> 'a option) \<Rightarrow> candidate list \<Rightarrow> 'a list" where
  "pluck typeProperty candidates =
     map the (filter (\<lambda>v. v \<noteq> None) (map (\<lambda>c. typeProperty (c_type c)) candidates))"

text \<open>
  \<^verbatim>\<open>Object.assign({}, ...sources)\<close>: each source in turn overwrites what is there, by
  ordinary assignment to the target. The target starts as an ordinary object, so assigning
  to its key \<^verbatim>\<open>__proto__\<close> runs the setter it inherits: no own property is made, and the
  value \<^verbatim>\<open>null\<close> takes the prototype away. Once the prototype is gone, \<^verbatim>\<open>__proto__\<close> is a key
  like any other. The state of the target is the pair of its own properties and whether
  its prototype is gone. (The values of \<open>js_value\<close> are primitive; an object under
  \<^verbatim>\<open>__proto__\<close> would become the prototype, which is outside this datatype.)
\<close>

definition protoKey :: string where
  "protoKey = ''__proto__''"

definition assignSource ::
  "(string \<rightharpoonup> js_value) \<times> bool \<Rightarrow> (string \<rightharpoonup> js_value) \<Rightarrow> (string \<rightharpoonup> js_value) \<times> bool" where
  "assignSource target src =
     (case target of
        (props, nullProto) \<Rightarrow>
          (let props' = props ++ (src |` (- {protoKey}))
           in case src protoKey of
                None \<Rightarrow> (props', nullProto)
              | Some v \<Rightarrow>
                  if nullProto then (props'(protoKey \<mapsto> v), nullProto)
                  else (props', v = JNull)))"

definition assignAll :: "(string \<rightharpoonup> js_value) list \<Rightarrow> (string \<rightharpoonup> js_value)" where
  "assignAll sources = fst (foldl assignSource (Map.empty, False) sources)"

text \<open>
  \<^verbatim>\<open>astNodes.slice(1).reduce((acc, n) => merge(n, acc), astNodes[0])\<close>; on an empty array
  the result is \<^verbatim>\<open>undefined\<close>.
\<close>

definition foldAstNodes :: "(ast \<Rightarrow> ast \<Rightarrow> ast) \<Rightarrow> ast list \<Rightarrow> ast option" where
  "foldAstNodes mergeNode astNodes =
     (case astNodes of
        [] \<Rightarrow> None
      | first # rest \<Rightarrow> Some (foldl (\<lambda>acc n. mergeNode n acc) first rest))"

text \<open>
  The trailing node that carries the merged fields' nodes, pushed when there is more than
  one original node and at least one field node. The JSON round trip of the source copies
  the field nodes.
\<close>

definition pushFieldNodes :: "ast list \<Rightarrow> ast list \<Rightarrow> ast list" where
  "pushFieldNodes astNodes fieldAstNodes =
     (if length astNodes > 1 \<and> fieldAstNodes \<noteq> []
      then astNodes @ [AstNode (ast_label (last astNodes)) fieldAstNodes]
      else astNodes)"

text \<open>
  \<^verbatim>\<open>Object.keys\<close> of an object whose keys were set in the order of the given list: the keys
  that are array indices (the decimal numerals without a leading zero, up to
  \<open>2\<^sup>3\<^sup>2 - 2\<close>) come first, in ascending numeric order, and the other keys follow in the
  order in which they were set. The field names of a merge configuration are written by
  the operator, so they may be such numerals.
\<close>

definition digitOf :: "char \<Rightarrow> int option" where
  "digitOf c = map_of (zip ''0123456789'' [0, 1, 2, 3, 4, 5, 6, 7, 8, 9]) c"

definition arrayIndex :: "string \<Rightarrow> int option" where
  "arrayIndex s =
     (if s = [] \<or> (length s > 1 \<and> hd s = CHR ''0'') then None
      else (case those (map digitOf s) of
              None \<Rightarrow> None
            | Some ds \<Rightarrow>
                (let n = foldl (\<lambda>acc d. 10 * acc + d) 0 ds
                 in if n \<le> 4294967294 then Some n else None)))"

definition objectKeys :: "string list \<Rightarrow> string list" where
  "objectKeys ks =
     map snd (sort_key fst (concat (map (\<lambda>k. case arrayIndex k of
                                               None \<Rightarrow> []
                                             | Some n \<Rightarrow> [(n, k)]) ks)))
     @ filter (\<lambda>k. arrayIndex k = None) ks"

definition canonicalFieldNamesForType :: "candidate list \<Rightarrow> string list" where
  "canonicalFieldNamesForType candidates =
     objectKeys (map fst
       (foldl
          (\<lambda>names c.
             if \<not> isSubschemaConfig (c_transformedSubschema c) then names
             else (case mergeConfigOf (c_transformedSubschema c) (name (c_type c)) of
                     None \<Rightarrow> names
                   | Some mergeConfig \<Rightarrow>
                       if \<not> mtc_canonical mergeConfig
                       then foldl
                              (\<lambda>names (fieldName, mergedFieldConfig).
                                 if mfc_canonical mergedFieldConfig
                                 then AList.update fieldName True names
                                 else names)
                              names (mtc_fields mergeConfig)
                       else names))
          [] candidates))"

text \<open>
  Reading \<^verbatim>\<open>toConfig()\<close> of a candidate's type: a property that the type's class does not
  have is \<^verbatim>\<open>undefined\<close>, over which the loops of the source do nothing.
\<close>

definition fieldsOf :: "named_type \<Rightarrow> (string \<times> field_config) list" where
  "fieldsOf t = (case kind t of ObjectKind fs is \<Rightarrow> fs | InterfaceKind fs is \<Rightarrow> fs | _ \<Rightarrow> [])"

definition inputFieldsOf :: "named_type \<Rightarrow> (string \<times> input_field_config) list" where
  "inputFieldsOf t = (case kind t of InputObjectKind fs \<Rightarrow> fs | _ \<Rightarrow> [])"

definition interfacesOf :: "named_type \<Rightarrow> type_ref list" where
  "interfacesOf t = (case kind t of ObjectKind fs is \<Rightarrow> is | InterfaceKind fs is \<Rightarrow> is | _ \<Rightarrow> [])"

definition valuesOf :: "named_type \<Rightarrow> (string \<times> enum_value_config) list" where
  "valuesOf t = (case kind t of EnumKind vs \<Rightarrow> vs | _ \<Rightarrow> [])"

definition serializeOf :: "named_type \<Rightarrow> js_function option" where
  "serializeOf t = (case kind t of ScalarKind s pv pl u \<Rightarrow> s | _ \<Rightarrow> None)"

definition parseValueOf :: "named_type \<Rightarrow> js_function option" where
  "parseValueOf t = (case kind t of ScalarKind s pv pl u \<Rightarrow> pv | _ \<Rightarrow> None)"

definition parseLiteralOf :: "named_type \<Rightarrow> js_function option" where
  "parseLiteralOf t = (case kind t of ScalarKind s pv pl u \<Rightarrow> pl | _ \<Rightarrow> None)"

definition specifiedByURLOf :: "named_type \<Rightarrow> string option" where
  "specifiedByURLOf t = (case kind t of ScalarKind s pv pl u \<Rightarrow> u | _ \<Rightarrow> None)"

text \<open>
  The reduction that builds \<^verbatim>\<open>interfaceMap\<close> (and a union's \<^verbatim>\<open>typeMap\<close>): a later object
  of the same name replaces the earlier one in place; \<^verbatim>\<open>Object.values\<close> then reads the map
  in insertion order.
\<close>

definition collectByName :: "type_ref list list \<Rightarrow> (string \<times> type_ref) list" where
  "collectByName refLists =
     foldl (\<lambda>acc refs. foldl (\<lambda>acc r. AList.update (ref_name r) r acc) acc refs) [] refLists"

section \<open>Object and interface fields\<close>

definition mergeFieldConfigs ::
  "externals \<Rightarrow> field_candidate list \<Rightarrow> options option \<Rightarrow> error + field_config" where
  "mergeFieldConfigs env candidates typeMergingOptions =
     (let merger =
            (case typeMergingOptions of
               None \<Rightarrow> getDefaultFieldConfigMerger None
             | Some opts \<Rightarrow> (case fieldConfigMerger opts of
                              None \<Rightarrow> getDefaultFieldConfigMerger (useNonNullableFieldOnConflict opts)
                            | Some f \<Rightarrow> f))
      in case merger candidates of
           Inl e \<Rightarrow> Inl e
         | Inr finalFieldConfig \<Rightarrow>
             (case validateFieldConsistency env finalFieldConfig candidates typeMergingOptions of
                Some e \<Rightarrow> Inl e
              | None \<Rightarrow> Inr finalFieldConfig))"

text \<open>
  Append a candidate to the array under its key; a new key goes to the end of the map. The
  keys of the maps of fields, input fields and enum values are GraphQL names, which do not
  begin with a digit, so these maps enumerate in the order of insertion.
\<close>

definition pushUnder :: "string \<Rightarrow> 'a \<Rightarrow> (string \<times> 'a list) list \<Rightarrow> (string \<times> 'a list) list" where
  "pushUnder key x m =
     (case map_of m key of
        Some xs \<Rightarrow> AList.update key (xs @ [x]) m
      | None \<Rightarrow> AList.update key [x] m)"

definition fieldConfigCandidatesMap :: "candidate list \<Rightarrow> (string \<times> field_candidate list) list" where
  "fieldConfigCandidatesMap candidates =
     foldl
       (\<lambda>m c.
          foldl
            (\<lambda>m (fName, fConfig).
               pushUnder fName
                 \<lparr>fieldConfig = fConfig, fieldName = fName, f_type = c_type c,
                  f_subschema = c_subschema c,
                  f_transformedSubschema = c_transformedSubschema c\<rparr> m)
            m (fieldsOf (c_type c)))
       [] candidates"

text \<open>
  The second loop of \<^verbatim>\<open>fieldConfigMapFromTypeCandidates\<close> assigns the merged configuration
  under each key of the candidates map in turn and stops at the first error. The keys of
  that map are distinct, so every assignment adds an entry at the end of the new map.
\<close>

fun mergeFieldEntries ::
  "externals \<Rightarrow> options option \<Rightarrow> (string \<times> field_candidate list) list
   \<Rightarrow> error + (string \<times> field_config) list" where
  "mergeFieldEntries env typeMergingOptions [] = Inr []"
| "mergeFieldEntries env typeMergingOptions ((fName, fieldConfigCandidates) # rest) =
     (case mergeFieldConfigs env fieldConfigCandidates typeMergingOptions of
        Inl e \<Rightarrow> Inl e
      | Inr merged \<Rightarrow>
          (case mergeFieldEntries env typeMergingOptions rest of
             Inl e \<Rightarrow> Inl e
           | Inr m \<Rightarrow> Inr ((fName, merged) # m)))"

definition fieldConfigMapFromTypeCandidates ::
  "externals \<Rightarrow> candidate list \<Rightarrow> options option \<Rightarrow> error + (string \<times> field_config) list" where
  "fieldConfigMapFromTypeCandidates env candidates typeMergingOptions =
     mergeFieldEntries env typeMergingOptions (fieldConfigCandidatesMap candidates)"

definition fieldAstNodesOf :: "candidate list \<Rightarrow> (string \<times> field_config) list \<Rightarrow> ast list" where
  "fieldAstNodesOf candidates mergedFields =
     map the
       (filter (\<lambda>n. n \<noteq> None)
          (map (\<lambda>fName. case map_of mergedFields fName of None \<Rightarrow> None | Some fc \<Rightarrow> fc_astNode fc)
               (canonicalFieldNamesForType candidates)))"

definition mergeObjectTypeCandidates ::
  "externals \<Rightarrow> cand_store \<Rightarrow> string \<Rightarrow> cand_ref list \<Rightarrow> options option \<Rightarrow> error + merged_type" where
  "mergeObjectTypeCandidates env heap typeName candidates typeMergingOptions =
     (case orderedTypeCandidates heap candidates typeMergingOptions of
        Inl e \<Rightarrow> Inl e
      | Inr ordered \<Rightarrow>
          (let cs = map heap ordered
           in case mergeTypeDescriptions cs typeMergingOptions of
                Inl e \<Rightarrow> Inl e
              | Inr descr \<Rightarrow>
                  (case fieldConfigMapFromTypeCandidates env cs typeMergingOptions of
                     Inl e \<Rightarrow> Inl e
                   | Inr mergedFields \<Rightarrow>
                       (let interfaces = map snd (collectByName (map (\<lambda>c. interfacesOf (c_type c)) cs));
                            astNodes = pushFieldNodes (pluck astNode cs) (fieldAstNodesOf cs mergedFields)
                        in Inr \<lparr>m_name = typeName,
                                 m_description = descr,
                                 m_kind = ObjectKind mergedFields interfaces,
                                 m_astNode = foldAstNodes (mergeType env) astNodes,
                                 m_extensionASTNodes = pluck extensionASTNodes cs,
                                 m_extensions = assignAll (pluck extensions cs)\<rparr>))))"

definition mergeInterfaceTypeCandidates ::
  "externals \<Rightarrow> cand_store \<Rightarrow> string \<Rightarrow> cand_ref list \<Rightarrow> options option \<Rightarrow> error + merged_type" where
  "mergeInterfaceTypeCandidates env heap typeName candidates typeMergingOptions =
     (case orderedTypeCandidates heap candidates typeMergingOptions of
        Inl e \<Rightarrow> Inl e
      | Inr ordered \<Rightarrow>
          (let cs = map heap ordered
           in case mergeTypeDescriptions cs typeMergingOptions of
                Inl e \<Rightarrow> Inl e
              | Inr descr \<Rightarrow>
                  (case fieldConfigMapFromTypeCandidates env cs typeMergingOptions of
                     Inl e \<Rightarrow> Inl e
                   | Inr mergedFields \<Rightarrow>
                       (let interfaces = map snd (collectByName (map (\<lambda>c. interfacesOf (c_type c)) cs));
                            astNodes = pushFieldNodes (pluck astNode cs) (fieldAstNodesOf cs mergedFields)
                        in Inr \<lparr>m_name = typeName,
                                 m_description = descr,
                                 m_kind = InterfaceKind mergedFields interfaces,
                                 m_astNode = foldAstNodes (mergeInterface env) astNodes,
                                 m_extensionASTNodes = pluck extensionASTNodes cs,
                                 m_extensions = assignAll (pluck extensions cs)\<rparr>))))"

section \<open>Input objects\<close>

record input_tallies =
  inputCanonicalByField :: "input_field_config list"
  inputCanonicalByType :: "input_field_config list"

definition input_tally_step :: "input_tallies \<Rightarrow> input_field_candidate \<Rightarrow> input_tallies" where
  "input_tally_step t c =
     (if \<not> isSubschemaConfig (i_transformedSubschema c) then t
      else if fieldIsCanonical (i_transformedSubschema c) (name (i_type c)) (i_fieldName c)
      then t\<lparr>inputCanonicalByField := inputCanonicalByField t @ [inputFieldConfig c]\<rparr>
      else if typeIsCanonical (i_transformedSubschema c) (name (i_type c))
      then t\<lparr>inputCanonicalByType := inputCanonicalByType t @ [inputFieldConfig c]\<rparr>
      else t)"

definition defaultInputFieldConfigMerger ::
  "input_field_candidate list \<Rightarrow> error + input_field_config" where
  "defaultInputFieldConfigMerger candidates =
     (let t = foldl input_tally_step
                \<lparr>inputCanonicalByField = [], inputCanonicalByType = []\<rparr> candidates
      in if length (inputCanonicalByField t) > 1 \<and> candidates \<noteq> [] then
           Inl (MultipleCanonicalError
                  (name (i_type (hd candidates)) @ ''.'' @ i_fieldName (hd candidates)))
         else
           (case inputCanonicalByField t of
              first # rest \<Rightarrow> Inr first
            | [] \<Rightarrow>
                (case inputCanonicalByType t of
                   first # rest \<Rightarrow> Inr first
                 | [] \<Rightarrow>
                     (if candidates = [] then Inl (Error ''Last candidate is required'')
                      else Inr (inputFieldConfig (last candidates))))))"

text \<open>
  The first loop of \<^verbatim>\<open>inputFieldConfigMapFromTypeCandidates\<close> fills two maps: the
  candidates of every field name, and how many candidates include it.
\<close>

definition inputFieldConfigCandidatesMap ::
  "candidate list \<Rightarrow> (string \<times> input_field_candidate list) list" where
  "inputFieldConfigCandidatesMap candidates =
     foldl
       (\<lambda>m c.
          foldl
            (\<lambda>m (fName, fConfig).
               pushUnder fName
                 \<lparr>inputFieldConfig = fConfig, i_fieldName = fName, i_type = c_type c,
                  i_subschema = c_subschema c,
                  i_transformedSubschema = c_transformedSubschema c\<rparr> m)
            m (inputFieldsOf (c_type c)))
       [] candidates"

definition fieldInclusionMap :: "candidate list \<Rightarrow> (string \<times> nat) list" where
  "fieldInclusionMap candidates =
     foldl
       (\<lambda>m c.
          foldl
            (\<lambda>m (fName, fConfig).
               AList.update fName ((case map_of m fName of None \<Rightarrow> 0 | Some n \<Rightarrow> n) + 1) m)
            m (inputFieldsOf (c_type c)))
       [] candidates"

fun mergeInputFieldEntries ::
  "externals \<Rightarrow> options option \<Rightarrow> (string \<times> input_field_candidate list) list
   \<Rightarrow> error + (string \<times> input_field_config) list" where
  "mergeInputFieldEntries env typeMergingOptions [] = Inr []"
| "mergeInputFieldEntries env typeMergingOptions ((fName, inputFieldConfigCandidate) # rest) =
     (let merger =
            (case typeMergingOptions of
               None \<Rightarrow> defaultInputFieldConfigMerger
             | Some opts \<Rightarrow> (case inputFieldConfigMerger opts of
                              None \<Rightarrow> defaultInputFieldConfigMerger
                            | Some f \<Rightarrow> f))
      in case merger inputFieldConfigCandidate of
           Inl e \<Rightarrow> Inl e
         | Inr merged \<Rightarrow>
             (case validateInputFieldConsistency env merged inputFieldConfigCandidate
                     typeMergingOptions of
                Some e \<Rightarrow> Inl e
              | None \<Rightarrow>
                  (case mergeInputFieldEntries env typeMergingOptions rest of
                     Inl e \<Rightarrow> Inl e
                   | Inr m \<Rightarrow> Inr ((fName, merged) # m))))"

definition inputFieldConfigMapFromTypeCandidates ::
  "externals \<Rightarrow> candidate list \<Rightarrow> options option
   \<Rightarrow> error + (string \<times> input_field_config) list" where
  "inputFieldConfigMapFromTypeCandidates env candidates typeMergingOptions =
     (case validateInputObjectConsistency env (fieldInclusionMap candidates) candidates
             typeMergingOptions of
        Some e \<Rightarrow> Inl e
      | None \<Rightarrow>
          mergeInputFieldEntries env typeMergingOptions (inputFieldConfigCandidatesMap candidates))"

definition inputFieldAstNodesOf ::
  "candidate list \<Rightarrow> (string \<times> input_field_config) list \<Rightarrow> ast list" where
  "inputFieldAstNodesOf candidates mergedFields =
     map the
       (filter (\<lambda>n. n \<noteq> None)
          (map (\<lambda>fName. case map_of mergedFields fName of None \<Rightarrow> None | Some fc \<Rightarrow> ifc_astNode fc)
               (canonicalFieldNamesForType candidates)))"

definition mergeInputObjectTypeCandidates ::
  "externals \<Rightarrow> cand_store \<Rightarrow> string \<Rightarrow> cand_ref list \<Rightarrow> options option \<Rightarrow> error + merged_type" where
  "mergeInputObjectTypeCandidates env heap typeName candidates typeMergingOptions =
     (case orderedTypeCandidates heap candidates typeMergingOptions of
        Inl e \<Rightarrow> Inl e
      | Inr ordered \<Rightarrow>
          (let cs = map heap ordered
           in case mergeTypeDescriptions cs typeMergingOptions of
                Inl e \<Rightarrow> Inl e
              | Inr descr \<Rightarrow>
                  (case inputFieldConfigMapFromTypeCandidates env cs typeMergingOptions of
                     Inl e \<Rightarrow> Inl e
                   | Inr mergedFields \<Rightarrow>
                       (let astNodes = pushFieldNodes (pluck astNode cs)
                                         (inputFieldAstNodesOf cs mergedFields)
                        in Inr \<lparr>m_name = typeName,
                                 m_description = descr,
                                 m_kind = InputObjectKind mergedFields,
                                 m_astNode = foldAstNodes (mergeInputType env) astNodes,
                                 m_extensionASTNodes = pluck extensionASTNodes cs,
                                 m_extensions = assignAll (pluck extensions cs)\<rparr>))))"

section \<open>Unions, enums and scalars\<close>

text \<open>
  The union merger checks every candidate again and throws on the first that is not a
  union; the message prints the type, which prints as its name.
\<close>

fun unionTypeConfigs :: "candidate list \<Rightarrow> error + type_ref list list" where
  "unionTypeConfigs [] = Inr []"
| "unionTypeConfigs (c # cs) =
     (case kind (c_type c) of
        UnionKind ts \<Rightarrow>
          (case unionTypeConfigs cs of Inl e \<Rightarrow> Inl e | Inr rest \<Rightarrow> Inr (ts # rest))
      | _ \<Rightarrow> Inl (Error (''Expected '' @ name (c_type c) @ '' to be a union type!'')))"

definition mergeUnionTypeCandidates ::
  "externals \<Rightarrow> cand_store \<Rightarrow> string \<Rightarrow> cand_ref list \<Rightarrow> options option \<Rightarrow> error + merged_type" where
  "mergeUnionTypeCandidates env heap typeName candidates typeMergingOptions =
     (case orderedTypeCandidates heap candidates typeMergingOptions of
        Inl e \<Rightarrow> Inl e
      | Inr ordered \<Rightarrow>
          (let cs = map heap ordered
           in case mergeTypeDescriptions cs typeMergingOptions of
                Inl e \<Rightarrow> Inl e
              | Inr descr \<Rightarrow>
                  (case unionTypeConfigs cs of
                     Inl e \<Rightarrow> Inl e
                   | Inr typeConfigs \<Rightarrow>
                       Inr \<lparr>m_name = typeName,
                            m_description = descr,
                            m_kind = UnionKind (map snd (collectByName typeConfigs)),
                            m_astNode = foldAstNodes (mergeUnion env) (pluck astNode cs),
                            m_extensionASTNodes = pluck extensionASTNodes cs,
                            m_extensions = assignAll (pluck extensions cs)\<rparr>)))"

definition defaultEnumValueConfigMerger ::
  "enum_value_candidate list \<Rightarrow> error + enum_value_config" where
  "defaultEnumValueConfigMerger candidates =
     (let preferred =
            List.find
              (\<lambda>c. isSubschemaConfig (e_transformedSubschema c)
                    \<and> typeIsCanonical (e_transformedSubschema c) (name (e_type c)))
              candidates
      in if candidates = [] then Inl (Error ''Last canonical is required'')
         else (case preferred of
                 Some p \<Rightarrow> Inr (enumValueConfig p)
               | None \<Rightarrow> Inr (enumValueConfig (last candidates))))"

definition enumValueConfigCandidatesMap ::
  "candidate list \<Rightarrow> (string \<times> enum_value_candidate list) list" where
  "enumValueConfigCandidatesMap candidates =
     foldl
       (\<lambda>m c.
          foldl
            (\<lambda>m (eValue, eConfig).
               pushUnder eValue
                 \<lparr>enumValueConfig = eConfig, enumValue = eValue, e_type = c_type c,
                  e_subschema = c_subschema c,
                  e_transformedSubschema = c_transformedSubschema c\<rparr> m)
            m (valuesOf (c_type c)))
       [] candidates"

fun mergeEnumValueEntries ::
  "options option \<Rightarrow> (string \<times> enum_value_candidate list) list
   \<Rightarrow> error + (string \<times> enum_value_config) list" where
  "mergeEnumValueEntries typeMergingOptions [] = Inr []"
| "mergeEnumValueEntries typeMergingOptions ((eValue, enumValueConfigCandidates) # rest) =
     (let merger =
            (case typeMergingOptions of
               None \<Rightarrow> defaultEnumValueConfigMerger
             | Some opts \<Rightarrow> (case enumValueConfigMerger opts of
                              None \<Rightarrow> defaultEnumValueConfigMerger
                            | Some f \<Rightarrow> f))
      in case merger enumValueConfigCandidates of
           Inl e \<Rightarrow> Inl e
         | Inr merged \<Rightarrow>
             (case mergeEnumValueEntries typeMergingOptions rest of
                Inl e \<Rightarrow> Inl e
              | Inr m \<Rightarrow> Inr ((eValue, merged) # m)))"

definition enumValueConfigMapFromTypeCandidates ::
  "candidate list \<Rightarrow> options option \<Rightarrow> error + (string \<times> enum_value_config) list" where
  "enumValueConfigMapFromTypeCandidates candidates typeMergingOptions =
     mergeEnumValueEntries typeMergingOptions (enumValueConfigCandidatesMap candidates)"

definition mergeEnumTypeCandidates ::
  "externals \<Rightarrow> cand_store \<Rightarrow> string \<Rightarrow> cand_ref list \<Rightarrow> options option \<Rightarrow> error + merged_type" where
  "mergeEnumTypeCandidates env heap typeName candidates typeMergingOptions =
     (case orderedTypeCandidates heap candidates typeMergingOptions of
        Inl e \<Rightarrow> Inl e
      | Inr ordered \<Rightarrow>
          (let cs = map heap ordered
           in case mergeTypeDescriptions cs typeMergingOptions of
                Inl e \<Rightarrow> Inl e
              | Inr descr \<Rightarrow>
                  (case enumValueConfigMapFromTypeCandidates cs typeMergingOptions of
                     Inl e \<Rightarrow> Inl e
                   | Inr mergedValues \<Rightarrow>
                       Inr \<lparr>m_name = typeName,
                            m_description = descr,
                            m_kind = EnumKind mergedValues,
                            m_astNode = foldAstNodes (mergeEnum env) (pluck astNode cs),
                            m_extensionASTNodes = pluck extensionASTNodes cs,
                            m_extensions = assignAll (pluck extensions cs)\<rparr>)))"

text \<open>\<^verbatim>\<open>fns[fns.length - 1]\<close>, which is \<^verbatim>\<open>undefined\<close> on an empty array.\<close>

definition lastOrUndefined :: "'a list \<Rightarrow> 'a option" where
  "lastOrUndefined xs = (if xs = [] then None else Some (last xs))"

text \<open>
  The loop over the candidates that stops at the first \<^verbatim>\<open>specifiedByURL\<close> that is truthy: a
  string that is neither absent nor empty.
\<close>

fun firstSpecifiedByURL :: "candidate list \<Rightarrow> string option" where
  "firstSpecifiedByURL [] = None"
| "firstSpecifiedByURL (c # cs) =
     (case specifiedByURLOf (c_type c) of
        None \<Rightarrow> firstSpecifiedByURL cs
      | Some url \<Rightarrow> (if url \<noteq> [] then Some url else firstSpecifiedByURL cs))"

definition mergeScalarTypeCandidates ::
  "externals \<Rightarrow> cand_store \<Rightarrow> string \<Rightarrow> cand_ref list \<Rightarrow> options option \<Rightarrow> error + merged_type" where
  "mergeScalarTypeCandidates env heap typeName candidates typeMergingOptions =
     (case orderedTypeCandidates heap candidates typeMergingOptions of
        Inl e \<Rightarrow> Inl e
      | Inr ordered \<Rightarrow>
          (let cs = map heap ordered
           in case mergeTypeDescriptions cs typeMergingOptions of
                Inl e \<Rightarrow> Inl e
              | Inr descr \<Rightarrow>
                  Inr \<lparr>m_name = typeName,
                       m_description = descr,
                       m_kind = ScalarKind (lastOrUndefined (pluck serializeOf cs))
                                           (lastOrUndefined (pluck parseValueOf cs))
                                           (lastOrUndefined (pluck parseLiteralOf cs))
                                           (firstSpecifiedByURL cs),
                       m_astNode = foldAstNodes (mergeScalar env) (pluck astNode cs),
                       m_extensionASTNodes = pluck extensionASTNodes cs,
                       m_extensions = assignAll (pluck extensions cs)\<rparr>))"

section \<open>The entry point\<close>

text \<open>
  \<^verbatim>\<open>candidate.type.constructor !== initialCandidateType?.constructor\<close>: on an empty list
  \<^verbatim>\<open>some\<close> finds nothing, and the dispatch then ends in its last branch.
\<close>

definition mergeCandidates ::
  "externals \<Rightarrow> cand_store \<Rightarrow> string \<Rightarrow> cand_ref list \<Rightarrow> options option \<Rightarrow> error + merged_type" where
  "mergeCandidates env heap typeName candidates typeMergingOptions =
     (let initialCandidateType =
            (case candidates of [] \<Rightarrow> None | r # rest \<Rightarrow> Some (c_type (heap r)))
      in if list_ex
              (\<lambda>r. Some (constructor_of (c_type (heap r)))
                    \<noteq> map_option constructor_of initialCandidateType)
              candidates
         then Inl (CategoryMismatchError typeName)
         else
           (case map_option constructor_of initialCandidateType of
              Some GraphQLObjectType \<Rightarrow>
                mergeObjectTypeCandidates env heap typeName candidates typeMergingOptions
            | Some GraphQLInputObjectType \<Rightarrow>
                mergeInputObjectTypeCandidates env heap typeName candidates typeMergingOptions
            | Some GraphQLInterfaceType \<Rightarrow>
                mergeInterfaceTypeCandidates env heap typeName candidates typeMergingOptions
            | Some GraphQLUnionType \<Rightarrow>
                mergeUnionTypeCandidates env heap typeName candidates typeMergingOptions
            | Some GraphQLEnumType \<Rightarrow>
                mergeEnumTypeCandidates env heap typeName candidates typeMergingOptions
            | Some GraphQLScalarType \<Rightarrow>
                mergeScalarTypeCandidates env heap typeName candidates typeMergingOptions
            | None \<Rightarrow> Inl (Error (''Type '' @ typeName @ '' has unknown GraphQL type.''))))"

section \<open>Notions used to state the properties\<close>

text \<open>
  A field candidate is eligible when the loop of the field merger does not skip it. It
  marks the field (or the type) canonical when it is eligible and the corresponding flag of
  its merge configuration is set: the conditions under which the loop pushes it.
\<close>

definition eligible :: "field_candidate \<Rightarrow> bool" where
  "eligible c = isSubschemaConfig (f_transformedSubschema c)"

definition marksFieldCanonical :: "field_candidate \<Rightarrow> bool" where
  "marksFieldCanonical c =
     (eligible c \<and> fieldIsCanonical (f_transformedSubschema c) (name (f_type c)) (fieldName c))"

definition marksTypeCanonical :: "field_candidate \<Rightarrow> bool" where
  "marksTypeCanonical c =
     (eligible c \<and> typeIsCanonical (f_transformedSubschema c) (name (f_type c)))"

text \<open>A nullable and a non-nullable field type both occur among the eligible candidates.\<close>

definition eligibleConflict :: "field_candidate list \<Rightarrow> bool" where
  "eligibleConflict cs =
     ((\<exists>c \<in> set cs. eligible c \<and> isNullableType (fc_type (fieldConfig c)))
      \<and> (\<exists>c \<in> set cs. eligible c \<and> \<not> isNullableType (fc_type (fieldConfig c))))"

text \<open>The field configuration with its type replaced by the nullable form, when \<open>b\<close> holds.\<close>

definition relaxed :: "bool \<Rightarrow> field_config \<Rightarrow> field_config" where
  "relaxed b w = (if b then w\<lparr>fc_type := getNullableType (fc_type w)\<rparr> else w)"

definition flagOn :: "bool option \<Rightarrow> bool" where
  "flagOn f = (f = Some True)"

text \<open>
  The candidate that the ladder of the field merger selects: the first that marks the field
  canonical, else the first that marks the type canonical, else the last of the list.
\<close>

definition ladderWinner :: "field_candidate list \<Rightarrow> field_candidate option" where
  "ladderWinner cs =
     (case filter marksFieldCanonical cs of
        c # rest \<Rightarrow> Some c
      | [] \<Rightarrow> (case filter marksTypeCanonical cs of
                 c # rest \<Rightarrow> Some c
               | [] \<Rightarrow> if cs = [] then None else Some (last cs)))"

text \<open>
  The references of a list whose candidates the default type-candidate merger counts as
  canonical, and whether the options leave the ordering and the description to the
  defaults of the source.
\<close>

definition canonicalMarked :: "cand_store \<Rightarrow> cand_ref list \<Rightarrow> cand_ref list" where
  "canonicalMarked heap refs = filter (\<lambda>r. isCanonicalCandidate (heap r)) refs"

definition defaultOrdering :: "options option \<Rightarrow> bool" where
  "defaultOrdering typeMergingOptions =
     (case typeMergingOptions of None \<Rightarrow> True | Some opts \<Rightarrow> typeCandidateMerger opts = None)"

definition defaultDescription :: "options option \<Rightarrow> bool" where
  "defaultDescription typeMergingOptions =
     (case typeMergingOptions of None \<Rightarrow> True | Some opts \<Rightarrow> typeDescriptionsMerger opts = None)"








text \<open>The inner reduction of \<open>collectByName\<close>, over one list of objects.\<close>

definition putAll :: "(string \<times> type_ref) list \<Rightarrow> type_ref list \<Rightarrow> (string \<times> type_ref) list" where
  "putAll acc rs = foldl (\<lambda>acc r. AList.update (ref_name r) r acc) acc rs"

text \<open>A \<^verbatim>\<open>specifiedByURL\<close> that the loop of the scalar merger passes over: absent or empty.\<close>

definition falsyURL :: "string option \<Rightarrow> bool" where
  "falsyURL u = (u = None \<or> u = Some [])"



text \<open>
  The value under a key of a type's extensions, and of the extensions of what a merge
  returned.
\<close>

definition extensionAt :: "string \<Rightarrow> named_type \<Rightarrow> js_value option" where
  "extensionAt k t = (case extensions t of None \<Rightarrow> None | Some e \<Rightarrow> e k)"

definition mergedExtensionAt :: "string \<Rightarrow> error + merged_type \<Rightarrow> error + js_value option" where
  "mergedExtensionAt k result = map_sum id (\<lambda>m. m_extensions m k) result"

text \<open>
  The state of the target of \<^verbatim>\<open>Object.assign\<close> is sound: while the target has its prototype
  it has no own property under the key \<^verbatim>\<open>__proto__\<close>.
\<close>

definition protoInvariant :: "(string \<rightharpoonup> js_value) \<times> bool \<Rightarrow> bool" where
  "protoInvariant t = (snd t \<or> fst t protoKey = None)"

section \<open>Example data\<close>

text \<open>
  A type \<^verbatim>\<open>Foo\<close> with a field \<^verbatim>\<open>bar\<close>, and subgraph configurations that are recognised
  or not and that mark \<^verbatim>\<open>Foo\<close> or \<^verbatim>\<open>Foo.bar\<close> canonical or not.
\<close>

definition exFoo :: named_type where
  "exFoo = \<lparr>name = ''Foo'', description = None, astNode = None, extensionASTNodes = None,
            extensions = None, kind = ObjectKind [] []\<rparr>"

definition exConfig :: "string \<Rightarrow> gql_type \<Rightarrow> field_config" where
  "exConfig d t = \<lparr>fc_type = t, fc_description = Some d, fc_args = [], fc_astNode = None\<rparr>"

definition exSubschema :: "bool \<Rightarrow> bool \<Rightarrow> bool \<Rightarrow> transformed_subschema option" where
  "exSubschema recognised byType byField =
     Some \<lparr>has_schema = recognised,
           merge = [(''Foo'', \<lparr>mtc_canonical = byType,
                               mtc_fields = [(''bar'', \<lparr>mfc_canonical = byField\<rparr>)]\<rparr>)]\<rparr>"

definition exBar :: "field_config \<Rightarrow> transformed_subschema option \<Rightarrow> field_candidate" where
  "exBar cfg ts = \<lparr>fieldConfig = cfg, fieldName = ''bar'', f_type = exFoo, f_subschema = None,
                   f_transformedSubschema = ts\<rparr>"

text \<open>
  Outside functions for the examples: a syntax-tree merger that keeps the later node, and
  validators that accept whatever they are given.
\<close>

definition exEnv :: externals where
  "exEnv = \<lparr>mergeType = (\<lambda>n acc. n), mergeInputType = (\<lambda>n acc. n),
            mergeInterface = (\<lambda>n acc. n), mergeUnion = (\<lambda>n acc. n),
            mergeEnum = (\<lambda>n acc. n), mergeScalar = (\<lambda>n acc. n),
            validateFieldConsistency = (\<lambda>fc cs opts. None),
            validateInputFieldConsistency = (\<lambda>fc cs opts. None),
            validateInputObjectConsistency = (\<lambda>m cs opts. None)\<rparr>"

definition exType :: "string option \<Rightarrow> (string \<rightharpoonup> js_value) option \<Rightarrow> type_kind \<Rightarrow> named_type" where
  "exType d ext k = \<lparr>name = ''Foo'', description = d, astNode = None, extensionASTNodes = None,
                     extensions = ext, kind = k\<rparr>"

definition exCandidate :: "named_type \<Rightarrow> transformed_subschema option \<Rightarrow> candidate" where
  "exCandidate t ts = \<lparr>c_type = t, c_subschema = None, c_transformedSubschema = ts\<rparr>"

text \<open>
  Object candidates for \<^verbatim>\<open>Foo\<close>: those under the references 10 and 30 mark it canonical,
  every other one does not. The candidates under 10 and 40 have the extensions
  \<^verbatim>\<open>{x: 1, y: 2}\<close>, the one under 30 has none, every other one has \<^verbatim>\<open>{y: 3, z: 4}\<close>.
\<close>

definition exStore :: cand_store where
  "exStore r =
     (if r = 10 then exCandidate (exType (Some ''a'') (Some [''x'' \<mapsto> JNum 1, ''y'' \<mapsto> JNum 2]) (ObjectKind [] []))
                      (exSubschema True True False)
      else if r = 30 then exCandidate (exType (Some ''c'') None (ObjectKind [] []))
                      (exSubschema True True False)
      else if r = 40 then exCandidate (exType (Some ''d'') (Some [''x'' \<mapsto> JNum 1, ''y'' \<mapsto> JNum 2]) (ObjectKind [] []))
                      (exSubschema True False False)
      else exCandidate (exType (Some ''b'') (Some [''y'' \<mapsto> JNum 3, ''z'' \<mapsto> JNum 4]) (ObjectKind [] []))
                      (exSubschema True False False))"

text \<open>A scalar under reference 10 and objects under every other reference.\<close>

definition exScalarStore :: cand_store where
  "exScalarStore r =
     (if r = 10 then exCandidate (exType None None (ScalarKind None None None None)) None
      else exCandidate (exType None None (ObjectKind [] [])) None)"

text \<open>
  Two objects for the interface example: the one under reference 10 implements \<^verbatim>\<open>A\<close>, every
  other one \<^verbatim>\<open>A\<close> and \<^verbatim>\<open>B\<close>, each subgraph with interface objects of its own.
\<close>

definition exIface :: "string \<Rightarrow> nat \<Rightarrow> type_ref" where
  "exIface n i = \<lparr>ref_name = n, ref_ident = i\<rparr>"

definition exIfaceStore :: cand_store where
  "exIfaceStore r =
     (if r = 10 then exCandidate (exType None None (ObjectKind [] [exIface ''A'' 1])) None
      else exCandidate (exType None None (ObjectKind [] [exIface ''A'' 2, exIface ''B'' 3])) None)"

text \<open>
  Scalars: the one under reference 10 marks \<^verbatim>\<open>Foo\<close> canonical and is specified by \<^verbatim>\<open>a\<close>; the
  one under 40 has the empty string as its \<^verbatim>\<open>specifiedByURL\<close>; every other one is
  specified by \<^verbatim>\<open>b\<close>. Each has serializer and parsers of its own.
\<close>

definition exScalar :: "nat \<Rightarrow> string \<Rightarrow> type_kind" where
  "exScalar n url =
     ScalarKind (Some (Function n)) (Some (Function (n + 1))) (Some (Function (n + 2))) (Some url)"

definition exScalars :: cand_store where
  "exScalars r =
     (if r = 10 then exCandidate (exType None None (exScalar 100 ''a'')) (exSubschema True True False)
      else if r = 40 then exCandidate (exType None None (exScalar 400 [])) None
      else exCandidate (exType None None (exScalar 200 ''b'')) None)"


text \<open>
  Object candidates for \<^verbatim>\<open>Foo\<close> without a subgraph configuration: the extensions of the one
  under reference 10 have the own properties \<^verbatim>\<open>__proto__\<close>, with the value 5, and \<^verbatim>\<open>x\<close>; those
  of every other one are \<^verbatim>\<open>{y: 3}\<close>.
\<close>

definition exProto :: cand_store where
  "exProto r =
     (if r = 10 then exCandidate (exType None (Some [protoKey \<mapsto> JNum 5, ''x'' \<mapsto> JNum 1]) (ObjectKind [] [])) None
      else exCandidate (exType None (Some [''y'' \<mapsto> JNum 3]) (ObjectKind [] [])) None)"





section \<open>The field merger: what the loop collects\<close>

lemmas ex_defs = exFoo_def exConfig_def exSubschema_def exBar_def eligible_def
  marksFieldCanonical_def marksTypeCanonical_def isSubschemaConfig_def mergeConfigOf_def
  typeIsCanonical_def fieldIsCanonical_def

lemma tally_canonicalByField:
  "canonicalByField (foldl tally_step t cs) =
     canonicalByField t @ map fieldConfig (filter marksFieldCanonical cs)"
  by (induction cs arbitrary: t)
     (simp_all add: tally_step_def marksFieldCanonical_def eligible_def Let_def)

lemma tally_canonicalByType:
  "canonicalByType (foldl tally_step t cs) =
     canonicalByType t
       @ map fieldConfig (filter (\<lambda>c. marksTypeCanonical c \<and> \<not> marksFieldCanonical c) cs)"
  by (induction cs arbitrary: t)
     (simp_all add: tally_step_def marksFieldCanonical_def marksTypeCanonical_def eligible_def Let_def)

lemma tally_nullables:
  "nullables (foldl tally_step t cs) =
     nullables t
       @ map fieldConfig (filter (\<lambda>c. eligible c \<and> isNullableType (fc_type (fieldConfig c))) cs)"
  by (induction cs arbitrary: t)
     (simp_all add: tally_step_def eligible_def Let_def)

lemma tally_nonNullables:
  "nonNullables (foldl tally_step t cs) =
     nonNullables t
       @ map fieldConfig (filter (\<lambda>c. eligible c \<and> \<not> isNullableType (fc_type (fieldConfig c))) cs)"
  by (induction cs arbitrary: t)
     (simp_all add: tally_step_def eligible_def Let_def)

lemma conflict_iff:
  "(length (nonNullables (foldl tally_step no_tallies cs)) > 0
     \<and> length (nullables (foldl tally_step no_tallies cs)) > 0) = eligibleConflict cs"
  by (auto simp: tally_nullables tally_nonNullables no_tallies_def eligibleConflict_def filter_empty_conv)

lemma flag_case: "(case f of None \<Rightarrow> False | Some b \<Rightarrow> b) = flagOn f"
  by (cases f) (auto simp: flagOn_def)

text \<open>The merger, with the four arrays replaced by what the loop has put into them.\<close>

lemma merger_char:
  "getDefaultFieldConfigMerger f cs =
     (if length (filter marksFieldCanonical cs) > 1 then
        Inl (MultipleCanonicalError (name (f_type (hd cs)) @ ''.'' @ fieldName (hd cs)))
      else case filter marksFieldCanonical cs of
             c # rest \<Rightarrow> Inr (relaxed (flagOn f \<and> eligibleConflict cs) (fieldConfig c))
           | [] \<Rightarrow>
              (case filter marksTypeCanonical cs of
                 c # rest \<Rightarrow> Inr (relaxed (flagOn f \<and> eligibleConflict cs) (fieldConfig c))
               | [] \<Rightarrow> if cs = [] then Inl (Error ''Field config is required'')
                        else Inr (relaxed (flagOn f \<and> eligibleConflict cs) (fieldConfig (last cs)))))"
proof -
  have bt: "filter marksFieldCanonical cs = [] \<Longrightarrow>
      filter (\<lambda>c. marksTypeCanonical c \<and> \<not> marksFieldCanonical c) cs = filter marksTypeCanonical cs"
    by (rule filter_cong) (auto simp: filter_empty_conv)
  have ne: "length (filter marksFieldCanonical cs) > 1 \<Longrightarrow> cs \<noteq> []"
    by auto
  let ?t = "foldl tally_step no_tallies cs"
  have c: "(0 < length (nonNullables ?t) \<and> 0 < length (nullables ?t) \<and> flagOn f)
             = (flagOn f \<and> eligibleConflict cs)"
    using conflict_iff[of cs] by auto
  have bf: "canonicalByField ?t = map fieldConfig (filter marksFieldCanonical cs)"
    by (simp add: tally_canonicalByField no_tallies_def)
  have bty: "canonicalByType ?t
     = map fieldConfig (filter (\<lambda>c. marksTypeCanonical c \<and> \<not> marksFieldCanonical c) cs)"
    by (simp add: tally_canonicalByType no_tallies_def)
  show ?thesis
    unfolding getDefaultFieldConfigMerger_def Let_def flag_case c bf bty
    using ne bt
    by (auto simp: relaxed_def split: list.splits)
qed

lemma filter_Cons_mem: "filter P xs = y # ys \<Longrightarrow> y \<in> set xs"
proof -
  assume "filter P xs = y # ys"
  then have "y \<in> set (filter P xs)" by simp
  then show ?thesis by simp
qed

lemma ladderWinner_mem: "ladderWinner cs = Some w \<Longrightarrow> w \<in> set cs"
proof (cases "filter marksFieldCanonical cs")
  case (Cons c rest)
  assume "ladderWinner cs = Some w"
  with Cons have "w = c" by (simp add: ladderWinner_def)
  with Cons show ?thesis by (simp add: filter_Cons_mem)
next
  case Nil
  assume a: "ladderWinner cs = Some w"
  show ?thesis
  proof (cases "filter marksTypeCanonical cs")
    case (Cons c rest)
    with Nil a have "w = c" by (simp add: ladderWinner_def)
    with Cons show ?thesis by (simp add: filter_Cons_mem)
  next
    case Nil2: Nil
    with Nil a have "cs \<noteq> [] \<and> w = last cs"
      by (simp add: ladderWinner_def split: if_splits)
    then show ?thesis by simp
  qed
qed

lemma merger_winner:
  assumes "getDefaultFieldConfigMerger f cs = Inr r"
  shows "\<exists>w. ladderWinner cs = Some w
            \<and> r = relaxed (flagOn f \<and> eligibleConflict cs) (fieldConfig w)"
proof (cases "filter marksFieldCanonical cs")
  case (Cons c rest)
  with assms show ?thesis
    by (simp add: merger_char ladderWinner_def split: if_splits)
next
  case Nil
  show ?thesis
  proof (cases "filter marksTypeCanonical cs")
    case (Cons c rest)
    with Nil assms show ?thesis
      by (simp add: merger_char ladderWinner_def)
  next
    case Nil2: Nil
    with Nil assms show ?thesis
      by (simp add: merger_char ladderWinner_def split: if_splits)
  qed
qed

lemma nullable_relaxed:
  "isNullableType (fc_type w) \<Longrightarrow> relaxed b w = w"
  by (cases "fc_type w") (simp_all add: relaxed_def)

section \<open>C2: the ladder of the default field-config merger\<close>

text \<open>
  C2 states the ladder: two or more eligible candidates canonical by field is an error
  naming \<^verbatim>\<open>Type.field\<close>; exactly one is used; else exactly one candidate canonical by type
  is used; else the last candidate. The third rung is not what the code does. With two
  eligible candidates whose type is canonical and none canonical by field, the claim falls
  through to the last candidate, while the merger returns the configuration of the first
  of the two: it tests \<^verbatim>\<open>canonicalByType.length\<close> for being non-zero only.
\<close>

theorem fieldConfigMerger_two_type_canonical:
  "filter marksFieldCanonical
     [exBar (exConfig ''a'' (NamedType ''String'')) (exSubschema True True False),
      exBar (exConfig ''b'' (NamedType ''String'')) (exSubschema True True False)] = []
   \<and> length (filter marksTypeCanonical
     [exBar (exConfig ''a'' (NamedType ''String'')) (exSubschema True True False),
      exBar (exConfig ''b'' (NamedType ''String'')) (exSubschema True True False)]) = 2
   \<and> getDefaultFieldConfigMerger None
     [exBar (exConfig ''a'' (NamedType ''String'')) (exSubschema True True False),
      exBar (exConfig ''b'' (NamedType ''String'')) (exSubschema True True False)]
     = Inr (exConfig ''a'' (NamedType ''String''))
   \<and> exConfig ''a'' (NamedType ''String'')
       \<noteq> fieldConfig (last
           [exBar (exConfig ''a'' (NamedType ''String'')) (exSubschema True True False),
            exBar (exConfig ''b'' (NamedType ''String'')) (exSubschema True True False)])"
  by (simp add: merger_char ex_defs relaxed_def flagOn_def)

text \<open>
  C2 as amended: for every non-empty list of field candidates that share the type name \<open>T\<close>
  and the field name \<open>F\<close>, (1) two or more candidates marking the field canonical give the
  error "Multiple canonical definitions" naming \<open>T.F\<close>; (2) exactly one gives that
  candidate's configuration; (3) none, and at least one candidate marking the type
  canonical, gives the configuration of the first such candidate; (4) otherwise the
  configuration of the last candidate. In (2) to (4) the configuration is returned with its
  type made nullable when the flag is on and the eligible candidates disagree on
  nullability, and unchanged otherwise.
\<close>

theorem fieldConfigMerger_ladder:
  assumes "cs \<noteq> []" and "\<forall>c \<in> set cs. name (f_type c) = T \<and> fieldName c = F"
  shows "(2 \<le> length (filter marksFieldCanonical cs) \<longrightarrow>
            getDefaultFieldConfigMerger f cs = Inl (MultipleCanonicalError (T @ ''.'' @ F)))
       \<and> (\<forall>c. filter marksFieldCanonical cs = [c] \<longrightarrow>
            getDefaultFieldConfigMerger f cs
              = Inr (relaxed (flagOn f \<and> eligibleConflict cs) (fieldConfig c)))
       \<and> (\<forall>c rest. filter marksFieldCanonical cs = [] \<and> filter marksTypeCanonical cs = c # rest \<longrightarrow>
            getDefaultFieldConfigMerger f cs
              = Inr (relaxed (flagOn f \<and> eligibleConflict cs) (fieldConfig c)))
       \<and> (filter marksFieldCanonical cs = [] \<and> filter marksTypeCanonical cs = [] \<longrightarrow>
            getDefaultFieldConfigMerger f cs
              = Inr (relaxed (flagOn f \<and> eligibleConflict cs) (fieldConfig (last cs))))"
proof -
  from assms have hd: "name (f_type (hd cs)) = T" "fieldName (hd cs) = F"
    by (cases cs; simp)+
  show ?thesis
    using assms(1) hd by (auto simp: merger_char)
qed

text \<open>
  The ladder on four lists of candidates for \<^verbatim>\<open>Foo.bar\<close>, one for each rung: two candidates
  canonical by field; one canonical by field before one canonical by type; two canonical by
  type after a plain one; and two plain ones, the last of them without a configuration.
\<close>

theorem fieldConfigMerger_ladder_witness:
  "getDefaultFieldConfigMerger None
     [exBar (exConfig ''a'' (NamedType ''String'')) (exSubschema True False True),
      exBar (exConfig ''b'' (NamedType ''String'')) (exSubschema True False True)]
     = Inl (MultipleCanonicalError ''Foo.bar'')
   \<and> getDefaultFieldConfigMerger None
     [exBar (exConfig ''a'' (NamedType ''String'')) (exSubschema True False True),
      exBar (exConfig ''b'' (NamedType ''String'')) (exSubschema True True False),
      exBar (exConfig ''c'' (NamedType ''String'')) (exSubschema True False False)]
     = Inr (exConfig ''a'' (NamedType ''String''))
   \<and> getDefaultFieldConfigMerger None
     [exBar (exConfig ''a'' (NamedType ''String'')) (exSubschema True False False),
      exBar (exConfig ''b'' (NamedType ''String'')) (exSubschema True True False),
      exBar (exConfig ''c'' (NamedType ''String'')) (exSubschema True True False)]
     = Inr (exConfig ''b'' (NamedType ''String''))
   \<and> getDefaultFieldConfigMerger None
     [exBar (exConfig ''a'' (NamedType ''String'')) (exSubschema True False False),
      exBar (exConfig ''b'' (NamedType ''String'')) None]
     = Inr (exConfig ''b'' (NamedType ''String''))"
proof -
  let ?l1 = "[exBar (exConfig ''a'' (NamedType ''String'')) (exSubschema True False True),
      exBar (exConfig ''b'' (NamedType ''String'')) (exSubschema True False True)]"
  let ?l2 = "[exBar (exConfig ''a'' (NamedType ''String'')) (exSubschema True False True),
      exBar (exConfig ''b'' (NamedType ''String'')) (exSubschema True True False),
      exBar (exConfig ''c'' (NamedType ''String'')) (exSubschema True False False)]"
  let ?l3 = "[exBar (exConfig ''a'' (NamedType ''String'')) (exSubschema True False False),
      exBar (exConfig ''b'' (NamedType ''String'')) (exSubschema True True False),
      exBar (exConfig ''c'' (NamedType ''String'')) (exSubschema True True False)]"
  let ?l4 = "[exBar (exConfig ''a'' (NamedType ''String'')) (exSubschema True False False),
      exBar (exConfig ''b'' (NamedType ''String'')) None]"
  have n: "?l1 \<noteq> []" "?l2 \<noteq> []" "?l3 \<noteq> []" "?l4 \<noteq> []" by simp_all
  have s1: "\<forall>c \<in> set ?l1. name (f_type c) = ''Foo'' \<and> fieldName c = ''bar''"
    by (simp add: exBar_def exFoo_def)
  have s2: "\<forall>c \<in> set ?l2. name (f_type c) = ''Foo'' \<and> fieldName c = ''bar''"
    by (simp add: exBar_def exFoo_def)
  have s3: "\<forall>c \<in> set ?l3. name (f_type c) = ''Foo'' \<and> fieldName c = ''bar''"
    by (simp add: exBar_def exFoo_def)
  have s4: "\<forall>c \<in> set ?l4. name (f_type c) = ''Foo'' \<and> fieldName c = ''bar''"
    by (simp add: exBar_def exFoo_def)
  have f1: "2 \<le> length (filter marksFieldCanonical ?l1)" by (simp add: ex_defs)
  have f2: "filter marksFieldCanonical ?l2
              = [exBar (exConfig ''a'' (NamedType ''String'')) (exSubschema True False True)]"
    by (simp add: ex_defs)
  have f3: "filter marksFieldCanonical ?l3 = []
            \<and> filter marksTypeCanonical ?l3
                = [exBar (exConfig ''b'' (NamedType ''String'')) (exSubschema True True False),
                   exBar (exConfig ''c'' (NamedType ''String'')) (exSubschema True True False)]"
    by (simp add: ex_defs)
  have f4: "filter marksFieldCanonical ?l4 = [] \<and> filter marksTypeCanonical ?l4 = []"
    by (simp add: ex_defs)
  have r1: "getDefaultFieldConfigMerger None ?l1 = Inl (MultipleCanonicalError ''Foo.bar'')"
    using fieldConfigMerger_ladder[OF n(1) s1, of None] f1 by simp
  have r2: "getDefaultFieldConfigMerger None ?l2 = Inr (exConfig ''a'' (NamedType ''String''))"
    using fieldConfigMerger_ladder[OF n(2) s2, of None] f2
    by (simp add: relaxed_def flagOn_def exBar_def)
  have r3: "getDefaultFieldConfigMerger None ?l3 = Inr (exConfig ''b'' (NamedType ''String''))"
    using fieldConfigMerger_ladder[OF n(3) s3, of None] f3
    by (simp add: relaxed_def flagOn_def exBar_def)
  have r4: "getDefaultFieldConfigMerger None ?l4 = Inr (exConfig ''b'' (NamedType ''String''))"
    using fieldConfigMerger_ladder[OF n(4) s4, of None] f4
    by (simp add: relaxed_def flagOn_def exBar_def)
  from r1 r2 r3 r4 show ?thesis by blast
qed

section \<open>C5: nullability on conflict\<close>

text \<open>
  C5 states that with the flag on, one nullable and one non-nullable field type among the
  candidates make the returned type the nullable form of the winner's. The merger counts
  nullable and non-nullable types among the eligible candidates only. Here the nullable
  candidate has no \<^verbatim>\<open>transformedSubschema\<close>: the flag is on, the two candidates disagree,
  and the non-nullable type of the winner is returned as it is.
\<close>

theorem fieldConfigMerger_conflict_unseen:
  "isNullableType (fc_type (exConfig ''a'' (NamedType ''String'')))
   \<and> \<not> isNullableType (fc_type (exConfig ''b'' (NonNullType (NamedType ''String''))))
   \<and> getDefaultFieldConfigMerger (Some True)
        [exBar (exConfig ''a'' (NamedType ''String'')) None,
         exBar (exConfig ''b'' (NonNullType (NamedType ''String''))) (exSubschema True False False)]
      = Inr (exConfig ''b'' (NonNullType (NamedType ''String'')))
   \<and> fc_type (exConfig ''b'' (NonNullType (NamedType ''String'')))
       \<noteq> getNullableType (fc_type (exConfig ''b'' (NonNullType (NamedType ''String''))))"
  by (simp add: merger_char ex_defs relaxed_def flagOn_def eligibleConflict_def)

text \<open>
  C5 as amended: whenever the default field merger returns a configuration, it is that of
  the ladder's winner, a candidate of the list, with the type replaced by its nullable form
  if the flag is on and at least one eligible candidate's field type is nullable and at
  least one eligible candidate's is non-nullable; otherwise (so whenever the flag is off)
  the winner's configuration is returned unchanged. A nullable type of the winner is never
  changed, so the type is never made non-nullable.
\<close>

theorem fieldConfigMerger_nullability:
  assumes "getDefaultFieldConfigMerger f cs = Inr r"
  shows "\<exists>w \<in> set cs. ladderWinner cs = Some w
           \<and> (flagOn f \<and> eligibleConflict cs \<longrightarrow>
                r = (fieldConfig w)\<lparr>fc_type := getNullableType (fc_type (fieldConfig w))\<rparr>)
           \<and> (\<not> (flagOn f \<and> eligibleConflict cs) \<longrightarrow> r = fieldConfig w)
           \<and> (isNullableType (fc_type (fieldConfig w)) \<longrightarrow> fc_type r = fc_type (fieldConfig w))"
proof -
  from merger_winner[OF assms] obtain w where
    w: "ladderWinner cs = Some w"
       "r = relaxed (flagOn f \<and> eligibleConflict cs) (fieldConfig w)"
    by blast
  have m: "w \<in> set cs" using w(1) by (rule ladderWinner_mem)
  have k: "isNullableType (fc_type (fieldConfig w)) \<longrightarrow> fc_type r = fc_type (fieldConfig w)"
    using w(2) by (simp add: nullable_relaxed)
  have a: "flagOn f \<and> eligibleConflict cs \<longrightarrow>
             r = (fieldConfig w)\<lparr>fc_type := getNullableType (fc_type (fieldConfig w))\<rparr>"
    using w(2) by (simp add: relaxed_def)
  have b: "\<not> (flagOn f \<and> eligibleConflict cs) \<longrightarrow> r = fieldConfig w"
    using w(2) by (simp add: relaxed_def)
  from m w(1) a b k show ?thesis by blast
qed

text \<open>
  Two eligible candidates, \<^verbatim>\<open>String\<close> then \<^verbatim>\<open>String!\<close>, neither canonical: the last wins; with
  the flag on its type is returned as \<^verbatim>\<open>String\<close>, with the flag off as \<^verbatim>\<open>String!\<close>.
\<close>

theorem fieldConfigMerger_nullability_witness:
  "getDefaultFieldConfigMerger (Some True)
     [exBar (exConfig ''a'' (NamedType ''String'')) (exSubschema True False False),
      exBar (exConfig ''b'' (NonNullType (NamedType ''String''))) (exSubschema True False False)]
     = Inr (exConfig ''b'' (NamedType ''String''))
   \<and> getDefaultFieldConfigMerger (Some False)
     [exBar (exConfig ''a'' (NamedType ''String'')) (exSubschema True False False),
      exBar (exConfig ''b'' (NonNullType (NamedType ''String''))) (exSubschema True False False)]
     = Inr (exConfig ''b'' (NonNullType (NamedType ''String'')))"
proof -
  let ?l = "[exBar (exConfig ''a'' (NamedType ''String'')) (exSubschema True False False),
      exBar (exConfig ''b'' (NonNullType (NamedType ''String''))) (exSubschema True False False)]"
  have w: "ladderWinner ?l
      = Some (exBar (exConfig ''b'' (NonNullType (NamedType ''String''))) (exSubschema True False False))"
    by (simp add: ladderWinner_def ex_defs)
  have c: "eligibleConflict ?l" by (simp add: eligibleConflict_def ex_defs)
  obtain r where r: "getDefaultFieldConfigMerger (Some True) ?l = Inr r"
    by (simp add: merger_char ex_defs)
  obtain r' where r': "getDefaultFieldConfigMerger (Some False) ?l = Inr r'"
    by (simp add: merger_char ex_defs)
  from fieldConfigMerger_nullability[OF r] w c
  have "r = exConfig ''b'' (NamedType ''String'')"
    by (auto simp: flagOn_def exBar_def exConfig_def)
  moreover from fieldConfigMerger_nullability[OF r'] w
  have "r' = exConfig ''b'' (NonNullType (NamedType ''String''))"
    by (auto simp: flagOn_def exBar_def exConfig_def)
  ultimately show ?thesis using r r' by simp
qed

section \<open>C10: candidates that are not recognised subschema configurations\<close>

text \<open>
  C10: a candidate whose \<^verbatim>\<open>transformedSubschema\<close> is not a recognised subschema
  configuration adds nothing to the four arrays of the loop (first conjunct), yet the
  last-wins fallback reads the last candidate of the whole list (second conjunct). When no
  candidate is eligible the last candidate's configuration is returned unchanged whatever
  the flag (third conjunct); and there are two ineligible candidates, one nullable and one
  not, for which the merger with the flag on returns the non-nullable configuration of the
  ineligible last candidate (fourth conjunct).
\<close>

theorem fieldConfigMerger_ineligible:
  "foldl tally_step no_tallies cs = foldl tally_step no_tallies (filter eligible cs)
   \<and> (cs \<noteq> [] \<and> (\<forall>c \<in> set cs. \<not> marksFieldCanonical c \<and> \<not> marksTypeCanonical c) \<longrightarrow>
        getDefaultFieldConfigMerger f cs
          = Inr (relaxed (flagOn f \<and> eligibleConflict (filter eligible cs)) (fieldConfig (last cs))))
   \<and> (cs \<noteq> [] \<and> (\<forall>c \<in> set cs. \<not> eligible c) \<longrightarrow>
        getDefaultFieldConfigMerger f cs = Inr (fieldConfig (last cs)))
   \<and> (\<exists>a b. \<not> eligible a \<and> \<not> eligible b
          \<and> isNullableType (fc_type (fieldConfig a)) \<and> \<not> isNullableType (fc_type (fieldConfig b))
          \<and> getDefaultFieldConfigMerger (Some True) [a, b] = Inr (fieldConfig b))"
proof -
  have step: "\<And>t c. \<not> eligible c \<Longrightarrow> tally_step t c = t"
    by (simp add: tally_step_def eligible_def)
  have t: "\<And>t. foldl tally_step t cs = foldl tally_step t (filter eligible cs)"
    by (induction cs) (simp_all add: step)
  have ec: "eligibleConflict (filter eligible cs) = eligibleConflict cs"
    by (auto simp: eligibleConflict_def)
  have none: "(\<forall>c \<in> set cs. \<not> eligible c) \<Longrightarrow> \<not> eligibleConflict cs"
    by (auto simp: eligibleConflict_def)
  have nomark: "(\<forall>c \<in> set cs. \<not> eligible c) \<Longrightarrow>
      filter marksFieldCanonical cs = [] \<and> filter marksTypeCanonical cs = []"
    by (auto simp: filter_empty_conv marksFieldCanonical_def marksTypeCanonical_def)
  have fallback: "cs \<noteq> [] \<and> (\<forall>c \<in> set cs. \<not> marksFieldCanonical c \<and> \<not> marksTypeCanonical c) \<longrightarrow>
        getDefaultFieldConfigMerger f cs
          = Inr (relaxed (flagOn f \<and> eligibleConflict (filter eligible cs)) (fieldConfig (last cs)))"
    by (auto simp: merger_char ec filter_empty_conv split: list.splits)
  have inel: "cs \<noteq> [] \<and> (\<forall>c \<in> set cs. \<not> eligible c) \<longrightarrow>
        getDefaultFieldConfigMerger f cs = Inr (fieldConfig (last cs))"
    using none nomark by (auto simp: merger_char relaxed_def)
  have ex: "\<exists>a b. \<not> eligible a \<and> \<not> eligible b
          \<and> isNullableType (fc_type (fieldConfig a)) \<and> \<not> isNullableType (fc_type (fieldConfig b))
          \<and> getDefaultFieldConfigMerger (Some True) [a, b] = Inr (fieldConfig b)"
    apply (rule exI[of _ "exBar (exConfig ''a'' (NamedType ''String'')) (exSubschema False True True)"])
    apply (rule exI[of _ "exBar (exConfig ''b'' (NonNullType (NamedType ''String''))) None"])
    apply (simp add: merger_char ex_defs relaxed_def flagOn_def eligibleConflict_def)
    done
  show ?thesis using t fallback inel ex by blast
qed

text \<open>
  The third conjunct on a list of two ineligible candidates that disagree on nullability,
  and the second on a list whose last candidate is the only ineligible one.
\<close>

theorem fieldConfigMerger_ineligible_witness:
  "getDefaultFieldConfigMerger (Some True)
     [exBar (exConfig ''a'' (NamedType ''String'')) (exSubschema False True True),
      exBar (exConfig ''b'' (NonNullType (NamedType ''String''))) None]
     = Inr (exConfig ''b'' (NonNullType (NamedType ''String'')))
   \<and> getDefaultFieldConfigMerger (Some True)
     [exBar (exConfig ''a'' (NamedType ''String'')) (exSubschema True False False),
      exBar (exConfig ''b'' (NonNullType (NamedType ''String''))) None]
     = Inr (exConfig ''b'' (NonNullType (NamedType ''String'')))"
proof -
  let ?l = "[exBar (exConfig ''a'' (NamedType ''String'')) (exSubschema False True True),
      exBar (exConfig ''b'' (NonNullType (NamedType ''String''))) None]"
  let ?k = "[exBar (exConfig ''a'' (NamedType ''String'')) (exSubschema True False False),
      exBar (exConfig ''b'' (NonNullType (NamedType ''String''))) None]"
  have h: "?l \<noteq> [] \<and> (\<forall>c \<in> set ?l. \<not> eligible c)" by (simp add: ex_defs)
  have g: "?k \<noteq> [] \<and> (\<forall>c \<in> set ?k. \<not> marksFieldCanonical c \<and> \<not> marksTypeCanonical c)"
    by (simp add: ex_defs)
  have e: "\<not> eligibleConflict (filter eligible ?k)" by (simp add: eligibleConflict_def ex_defs)
  have "getDefaultFieldConfigMerger (Some True) ?l = Inr (fieldConfig (last ?l))"
    using fieldConfigMerger_ineligible[of ?l "Some True"] h by blast
  moreover have "getDefaultFieldConfigMerger (Some True) ?k
      = Inr (relaxed (flagOn (Some True) \<and> eligibleConflict (filter eligible ?k)) (fieldConfig (last ?k)))"
    using fieldConfigMerger_ineligible[of ?k "Some True"] g by blast
  ultimately show ?thesis using e by (simp add: exBar_def relaxed_def)
qed

section \<open>Ordering, and what every merger does with the ordered list\<close>

lemma typeMerger_char:
  "defaultTypeCandidateMerger heap refs =
     (case canonicalMarked heap refs of
        a # b # rest \<Rightarrow> Inl (MultipleCanonicalError (name (c_type (heap a))))
      | [a] \<Rightarrow> Inr a
      | [] \<Rightarrow> if refs = [] then Inl (Error ''Last canonical is required'') else Inr (last refs))"
  by (simp add: defaultTypeCandidateMerger_def canonicalMarked_def Let_def split: list.splits)

lemma ordered_default:
  "defaultOrdering opts \<Longrightarrow>
   orderedTypeCandidates heap refs opts =
     (case defaultTypeCandidateMerger heap refs of
        Inl e \<Rightarrow> Inl e
      | Inr c \<Rightarrow> Inr (filter (\<lambda>r. r \<noteq> c) refs @ [c]))"
  by (simp add: orderedTypeCandidates_def defaultOrdering_def split: option.splits)

lemma description_default:
  "defaultDescription opts \<Longrightarrow>
   mergeTypeDescriptions cs opts = Inr (defaultTypeDescriptionMerger cs)"
  by (simp add: mergeTypeDescriptions_def defaultDescription_def split: option.splits)

lemma object_common:
  "mergeObjectTypeCandidates env heap T refs opts = Inr m \<Longrightarrow>
   \<exists>ord. orderedTypeCandidates heap refs opts = Inr ord \<and> m_name m = T
        \<and> mergeTypeDescriptions (map heap ord) opts = Inr (m_description m)
        \<and> m_extensions m = assignAll (pluck extensions (map heap ord))"
  by (auto simp: mergeObjectTypeCandidates_def Let_def split: sum.splits)

lemma input_common:
  "mergeInputObjectTypeCandidates env heap T refs opts = Inr m \<Longrightarrow>
   \<exists>ord. orderedTypeCandidates heap refs opts = Inr ord \<and> m_name m = T
        \<and> mergeTypeDescriptions (map heap ord) opts = Inr (m_description m)
        \<and> m_extensions m = assignAll (pluck extensions (map heap ord))"
  by (auto simp: mergeInputObjectTypeCandidates_def Let_def split: sum.splits)

lemma interface_common:
  "mergeInterfaceTypeCandidates env heap T refs opts = Inr m \<Longrightarrow>
   \<exists>ord. orderedTypeCandidates heap refs opts = Inr ord \<and> m_name m = T
        \<and> mergeTypeDescriptions (map heap ord) opts = Inr (m_description m)
        \<and> m_extensions m = assignAll (pluck extensions (map heap ord))"
  by (auto simp: mergeInterfaceTypeCandidates_def Let_def split: sum.splits)

lemma union_common:
  "mergeUnionTypeCandidates env heap T refs opts = Inr m \<Longrightarrow>
   \<exists>ord. orderedTypeCandidates heap refs opts = Inr ord \<and> m_name m = T
        \<and> mergeTypeDescriptions (map heap ord) opts = Inr (m_description m)
        \<and> m_extensions m = assignAll (pluck extensions (map heap ord))"
  by (auto simp: mergeUnionTypeCandidates_def Let_def split: sum.splits)

lemma enum_common:
  "mergeEnumTypeCandidates env heap T refs opts = Inr m \<Longrightarrow>
   \<exists>ord. orderedTypeCandidates heap refs opts = Inr ord \<and> m_name m = T
        \<and> mergeTypeDescriptions (map heap ord) opts = Inr (m_description m)
        \<and> m_extensions m = assignAll (pluck extensions (map heap ord))"
  by (auto simp: mergeEnumTypeCandidates_def Let_def split: sum.splits)

lemma scalar_common:
  "mergeScalarTypeCandidates env heap T refs opts = Inr m \<Longrightarrow>
   \<exists>ord. orderedTypeCandidates heap refs opts = Inr ord \<and> m_name m = T
        \<and> mergeTypeDescriptions (map heap ord) opts = Inr (m_description m)
        \<and> m_extensions m = assignAll (pluck extensions (map heap ord))"
  by (auto simp: mergeScalarTypeCandidates_def Let_def split: sum.splits)

lemma merge_dispatch:
  "mergeCandidates env heap T refs opts = Inr m \<Longrightarrow>
     mergeObjectTypeCandidates env heap T refs opts = Inr m
   \<or> mergeInputObjectTypeCandidates env heap T refs opts = Inr m
   \<or> mergeInterfaceTypeCandidates env heap T refs opts = Inr m
   \<or> mergeUnionTypeCandidates env heap T refs opts = Inr m
   \<or> mergeEnumTypeCandidates env heap T refs opts = Inr m
   \<or> mergeScalarTypeCandidates env heap T refs opts = Inr m"
  by (simp add: mergeCandidates_def Let_def split: if_splits option.splits gql_constructor.splits)

lemma merge_common:
  assumes "mergeCandidates env heap T refs opts = Inr m"
  shows "\<exists>ord. orderedTypeCandidates heap refs opts = Inr ord \<and> m_name m = T
        \<and> mergeTypeDescriptions (map heap ord) opts = Inr (m_description m)
        \<and> m_extensions m = assignAll (pluck extensions (map heap ord))"
  using merge_dispatch[OF assms]
  apply (elim disjE)
  apply (erule object_common)
  apply (erule input_common)
  apply (erule interface_common)
  apply (erule union_common)
  apply (erule enum_common)
  apply (erule scalar_common)
  done

lemma pluck_snoc:
  "pluck f (cs @ [c]) = pluck f cs @ (case f (c_type c) of None \<Rightarrow> [] | Some v \<Rightarrow> [v])"
  by (simp add: pluck_def split: option.splits)

text \<open>
  What \<^verbatim>\<open>Object.assign\<close> leaves under a key: for every key but \<^verbatim>\<open>__proto__\<close>, the value of the
  last source that has the key.
\<close>

lemma assign_snoc: "foldl assignSource t (es @ [e]) = assignSource (foldl assignSource t es) e"
  by simp

lemma assignSource_other:
  "k \<noteq> protoKey \<Longrightarrow>
   fst (assignSource t e) k = (case e k of None \<Rightarrow> fst t k | Some v \<Rightarrow> Some v)"
  by (cases t) (simp add: assignSource_def Let_def map_add_def restrict_map_def split: option.splits)

lemma assign_lookup:
  "k \<noteq> protoKey \<Longrightarrow>
   fst (foldl assignSource t es) k =
     (if filter (\<lambda>e. e k \<noteq> None) es = [] then fst t k
      else last (filter (\<lambda>e. e k \<noteq> None) es) k)"
proof (induction es rule: rev_induct)
  case Nil
  show ?case by simp
next
  case (snoc e es)
  show ?case
  proof (cases "e k")
    case None
    with snoc show ?thesis by (simp add: assignSource_other)
  next
    case (Some v)
    with snoc show ?thesis by (simp add: assignSource_other)
  qed
qed

lemma assignAll_lookup:
  "k \<noteq> protoKey \<Longrightarrow>
   assignAll es k =
     (if filter (\<lambda>e. e k \<noteq> None) es = [] then None
      else last (filter (\<lambda>e. e k \<noteq> None) es) k)"
  by (simp add: assignAll_def assign_lookup)

lemma assignSource_invariant: "protoInvariant t \<Longrightarrow> protoInvariant (assignSource t e)"
  by (cases t) (auto simp: protoInvariant_def assignSource_def Let_def map_add_def restrict_map_def
      split: option.splits)

lemma assign_invariant: "protoInvariant t \<Longrightarrow> protoInvariant (foldl assignSource t es)"
  by (induction es rule: rev_induct) (simp_all add: assignSource_invariant)

lemma assignSource_keeps_prototype:
  "\<not> snd t \<Longrightarrow> e protoKey \<noteq> Some JNull \<Longrightarrow> \<not> snd (assignSource t e)"
  by (cases t) (auto simp: assignSource_def Let_def split: option.splits)

lemma assign_keeps_prototype:
  "\<not> snd t \<Longrightarrow> \<forall>e \<in> set es. e protoKey \<noteq> Some JNull \<Longrightarrow> \<not> snd (foldl assignSource t es)"
  by (induction es rule: rev_induct) (simp_all add: assignSource_keeps_prototype)

lemma assignAll_no_proto:
  assumes "\<forall>e \<in> set es. e protoKey \<noteq> Some JNull"
  shows "assignAll es protoKey = None"
proof -
  let ?t = "foldl assignSource (Map.empty, False) es"
  have "protoInvariant ?t" by (rule assign_invariant) (simp add: protoInvariant_def)
  moreover have "\<not> snd ?t" by (rule assign_keeps_prototype) (simp_all add: assms)
  ultimately show ?thesis by (simp add: assignAll_def protoInvariant_def)
qed



lemma ex_canonical:
  "isCanonicalCandidate (exStore r) = (r = 10 \<or> r = 30)"
  by (simp add: exStore_def isCanonicalCandidate_def exCandidate_def exType_def exSubschema_def
      isSubschemaConfig_def typeIsCanonical_def mergeConfigOf_def)

lemmas exStore_defs = exStore_def exCandidate_def exType_def

lemma ex_marked: "canonicalMarked exStore [10, 20] = [10]"
  by (simp add: canonicalMarked_def ex_canonical)


lemma ex_object: "constructor_of (c_type (exStore r)) = GraphQLObjectType"
  by (simp add: exStore_defs)

lemma ex_merge:
  "\<exists>m. mergeCandidates exEnv exStore ''Foo'' [10, 20] None = Inr m"
proof -
  have "mergeCandidates exEnv exStore ''Foo'' [10, 20] None
          = mergeObjectTypeCandidates exEnv exStore ''Foo'' [10, 20] None"
    by (simp add: mergeCandidates_def ex_object del: constructor_of.simps)
  moreover have "orderedTypeCandidates exStore [10, 20] None = Inr [20, 10]"
    by (simp add: ordered_default defaultOrdering_def typeMerger_char ex_marked)
  moreover have "fieldConfigMapFromTypeCandidates exEnv (map exStore [20, 10]) None = Inr []"
    by (simp add: fieldConfigMapFromTypeCandidates_def fieldConfigCandidatesMap_def fieldsOf_def
        exStore_defs)
  ultimately show ?thesis
    by (simp add: mergeObjectTypeCandidates_def description_default defaultDescription_def Let_def)
qed

section \<open>C1: the canonical candidate of a type\<close>




















section \<open>C3: the default ordering\<close>






section \<open>C4: candidates of different type categories\<close>

text \<open>
  C4: if two candidates of the list are of different type categories (their types have
  different constructors), \<^verbatim>\<open>mergeCandidates\<close> fails with the error "Cannot merge
  different type categories into common type" naming the type. This holds for every
  choice of options and of outside functions, so no merger of a kind has a say, and no
  type is returned.
\<close>

theorem mergeCandidates_category_mismatch:
  assumes "r1 \<in> set refs" and "r2 \<in> set refs"
    and "constructor_of (c_type (heap r1)) \<noteq> constructor_of (c_type (heap r2))"
  shows "mergeCandidates env heap T refs opts = Inl (CategoryMismatchError T)"
proof -
  from assms(1) obtain r0 rest where refs: "refs = r0 # rest" by (cases refs) auto
  have "\<exists>r \<in> set refs. constructor_of (c_type (heap r)) \<noteq> constructor_of (c_type (heap r0))"
    using assms by metis
  then have "list_ex (\<lambda>r. Some (constructor_of (c_type (heap r)))
                 \<noteq> map_option constructor_of (Some (c_type (heap r0)))) refs"
    by (simp add: list_ex_iff)
  then show ?thesis
    by (simp add: mergeCandidates_def refs Let_def del: constructor_of.simps)
qed

text \<open>A scalar and an object under one name, in either order.\<close>

theorem mergeCandidates_category_mismatch_witness:
  "mergeCandidates exEnv exScalarStore ''Foo'' [10, 20] None = Inl (CategoryMismatchError ''Foo'')
   \<and> mergeCandidates exEnv exScalarStore ''Foo'' [20, 10] None = Inl (CategoryMismatchError ''Foo'')"
proof -
  have d: "constructor_of (c_type (exScalarStore 10)) \<noteq> constructor_of (c_type (exScalarStore 20))"
    by (simp add: exScalarStore_def exCandidate_def exType_def)
  have "mergeCandidates exEnv exScalarStore ''Foo'' [10, 20] None = Inl (CategoryMismatchError ''Foo'')"
    by (rule mergeCandidates_category_mismatch[of 10 _ 20, OF _ _ d]) simp_all
  moreover
  have "mergeCandidates exEnv exScalarStore ''Foo'' [20, 10] None = Inl (CategoryMismatchError ''Foo'')"
    by (rule mergeCandidates_category_mismatch[of 10 _ 20, OF _ _ d]) simp_all
  ultimately show ?thesis by simp
qed

section \<open>C7: the interfaces of a merged object type\<close>

lemma collectByName_putAll: "collectByName ls = putAll [] (concat ls)"
proof -
  have "\<And>acc. foldl (\<lambda>acc refs. foldl (\<lambda>acc r. AList.update (ref_name r) r acc) acc refs) acc ls
          = putAll acc (concat ls)"
    by (induction ls) (simp_all add: putAll_def)
  then show ?thesis by (simp add: collectByName_def)
qed

lemma putAll_snoc: "putAll acc (rs @ [r]) = AList.update (ref_name r) r (putAll acc rs)"
  by (simp add: putAll_def)

lemma putAll_keys: "fst ` set (putAll acc rs) = fst ` set acc \<union> ref_name ` set rs"
  by (induction rs rule: rev_induct) (auto simp: putAll_snoc dom_update putAll_def)

lemma putAll_distinct: "distinct (map fst acc) \<Longrightarrow> distinct (map fst (putAll acc rs))"
  by (induction rs rule: rev_induct) (simp_all add: putAll_snoc distinct_update putAll_def)

lemma set_update_subset: "set (AList.update k v al) \<subseteq> insert (k, v) (set al)"
  by (induction al) auto

lemma putAll_named:
  "(\<forall>p \<in> set acc. ref_name (snd p) = fst p) \<Longrightarrow> \<forall>p \<in> set (putAll acc rs). ref_name (snd p) = fst p"
proof (induction rs rule: rev_induct)
  case Nil
  then show ?case by (simp add: putAll_def)
next
  case (snoc r rs)
  then have ih: "\<forall>p \<in> set (putAll acc rs). ref_name (snd p) = fst p" by simp
  show ?case
  proof
    fix p assume "p \<in> set (putAll acc (rs @ [r]))"
    then have "p \<in> insert (ref_name r, r) (set (putAll acc rs))"
      using set_update_subset[of "ref_name r" r "putAll acc rs"] by (auto simp: putAll_snoc)
    with ih show "ref_name (snd p) = fst p" by auto
  qed
qed

lemma putAll_lookup:
  "map_of (putAll [] rs) k =
     (if filter (\<lambda>j. ref_name j = k) rs = [] then None
      else Some (last (filter (\<lambda>j. ref_name j = k) rs)))"
proof (induction rs rule: rev_induct)
  case Nil
  show ?case by (simp add: putAll_def)
next
  case (snoc r rs)
  then show ?case by (simp add: putAll_snoc update_conv')
qed

lemma collected_interfaces:
  fixes ls :: "type_ref list list"
  defines "ifaces \<equiv> map snd (collectByName ls)"
  shows "set (map ref_name ifaces) = ref_name ` set (concat ls)"
    and "distinct (map ref_name ifaces)"
    and "\<forall>i \<in> set ifaces. i = last (filter (\<lambda>j. ref_name j = ref_name i) (concat ls))"
proof -
  let ?R = "putAll [] (concat ls)"
  have named: "\<forall>p \<in> set ?R. ref_name (snd p) = fst p"
    by (rule putAll_named) simp
  have names: "map ref_name ifaces = map fst ?R"
    using named by (simp add: ifaces_def collectByName_putAll)
  have dist: "distinct (map fst ?R)" by (rule putAll_distinct) simp
  show "set (map ref_name ifaces) = ref_name ` set (concat ls)"
    using putAll_keys[of "[]" "concat ls"] by (simp add: names)
  show "distinct (map ref_name ifaces)" using dist by (simp add: names)
  show "\<forall>i \<in> set ifaces. i = last (filter (\<lambda>j. ref_name j = ref_name i) (concat ls))"
  proof
    fix i assume "i \<in> set ifaces"
    then obtain k where kin: "(k, i) \<in> set ?R"
      by (auto simp: ifaces_def collectByName_putAll)
    with named have k: "k = ref_name i" by auto
    from kin dist have "map_of ?R k = Some i" by simp
    then show "i = last (filter (\<lambda>j. ref_name j = ref_name i) (concat ls))"
      by (simp add: putAll_lookup k split: if_splits)
  qed
qed

lemma ordered_default_set:
  assumes "defaultOrdering opts" and "orderedTypeCandidates heap refs opts = Inr ord"
  shows "set ord = set refs"
proof -
  from assms obtain c where c: "defaultTypeCandidateMerger heap refs = Inr c"
    and o: "ord = filter (\<lambda>r. r \<noteq> c) refs @ [c]"
    by (auto simp: ordered_default split: sum.splits)
  have "c \<in> set refs"
  proof (cases "canonicalMarked heap refs")
    case Nil
    with c have "refs \<noteq> [] \<and> c = last refs"
      by (simp add: typeMerger_char split: if_splits)
    then show ?thesis by simp
  next
    case (Cons a rest)
    with c have "c = a" by (cases rest) (simp_all add: typeMerger_char)
    moreover have "a \<in> set (canonicalMarked heap refs)" using Cons by simp
    ultimately show ?thesis by (simp add: canonicalMarked_def)
  qed
  with o show ?thesis by auto
qed

text \<open>
  C7: whenever the object merger returns a type, its interface list has exactly the names
  of the interfaces that the candidates of the ordered list implement, no name twice, and
  for each name the interface object of the candidate that comes latest in the ordered list
  (the list the merger works on, with the canonical candidate last). Under the default
  ordering the ordered list has the same candidates as the input.
\<close>

theorem merged_interfaces_union_by_name:
  assumes "mergeObjectTypeCandidates env heap T refs opts = Inr m"
  shows "\<exists>ord fs ifaces.
           orderedTypeCandidates heap refs opts = Inr ord
         \<and> m_kind m = ObjectKind fs ifaces
         \<and> set (map ref_name ifaces)
             = (\<Union>r \<in> set ord. ref_name ` set (interfacesOf (c_type (heap r))))
         \<and> distinct (map ref_name ifaces)
         \<and> (\<forall>i \<in> set ifaces.
               i = last (filter (\<lambda>j. ref_name j = ref_name i)
                          (concat (map (\<lambda>r. interfacesOf (c_type (heap r))) ord))))
         \<and> (defaultOrdering opts \<longrightarrow> set ord = set refs)"
proof -
  from assms obtain ord fs where
    o: "orderedTypeCandidates heap refs opts = Inr ord"
    and k: "m_kind m = ObjectKind fs
              (map snd (collectByName (map (\<lambda>c. interfacesOf (c_type c)) (map heap ord))))"
    by (auto simp: mergeObjectTypeCandidates_def Let_def split: sum.splits)
  let ?ls = "map (\<lambda>c. interfacesOf (c_type c)) (map heap ord)"
  let ?ifaces = "map snd (collectByName ?ls)"
  have ls: "concat ?ls = concat (map (\<lambda>r. interfacesOf (c_type (heap r))) ord)"
    by (simp add: comp_def)
  have a: "set (map ref_name ?ifaces)
             = (\<Union>r \<in> set ord. ref_name ` set (interfacesOf (c_type (heap r))))"
    using collected_interfaces(1)[of ?ls] by auto
  have b: "distinct (map ref_name ?ifaces)" by (rule collected_interfaces(2))
  have c: "\<forall>i \<in> set ?ifaces.
               i = last (filter (\<lambda>j. ref_name j = ref_name i)
                          (concat (map (\<lambda>r. interfacesOf (c_type (heap r))) ord)))"
    using collected_interfaces(3)[of ?ls] by (simp only: ls)
  have d: "defaultOrdering opts \<longrightarrow> set ord = set refs"
    using ordered_default_set[OF _ o] by blast
  from o k a b c d show ?thesis by blast
qed

lemmas exIface_defs = exIfaceStore_def exCandidate_def exType_def

lemma ex_iface_ordered: "orderedTypeCandidates exIfaceStore [10, 20] None = Inr [10, 20]"
  by (simp add: ordered_default defaultOrdering_def typeMerger_char canonicalMarked_def
      isCanonicalCandidate_def isSubschemaConfig_def exIface_defs)

lemma ex_iface_merge:
  "\<exists>m. mergeObjectTypeCandidates exEnv exIfaceStore ''Foo'' [10, 20] None = Inr m"
proof -
  have "fieldConfigMapFromTypeCandidates exEnv (map exIfaceStore [10, 20]) None = Inr []"
    by (simp add: fieldConfigMapFromTypeCandidates_def fieldConfigCandidatesMap_def fieldsOf_def
        exIface_defs)
  with ex_iface_ordered show ?thesis
    by (simp add: mergeObjectTypeCandidates_def description_default defaultDescription_def Let_def)
qed

text \<open>
  A candidate implementing \<^verbatim>\<open>A\<close> merged with one implementing \<^verbatim>\<open>A\<close> and \<^verbatim>\<open>B\<close>: the merged
  type implements \<^verbatim>\<open>A\<close> and \<^verbatim>\<open>B\<close>, and its \<^verbatim>\<open>A\<close> is the second candidate's object.
\<close>

theorem merged_interfaces_union_by_name_witness:
  "\<exists>m fs ifaces. mergeObjectTypeCandidates exEnv exIfaceStore ''Foo'' [10, 20] None = Inr m
      \<and> m_kind m = ObjectKind fs ifaces
      \<and> set (map ref_name ifaces) = {''A'', ''B''}
      \<and> distinct (map ref_name ifaces)
      \<and> exIface ''A'' 2 \<in> set ifaces
      \<and> exIface ''A'' 1 \<notin> set ifaces"
proof -
  obtain m where m: "mergeObjectTypeCandidates exEnv exIfaceStore ''Foo'' [10, 20] None = Inr m"
    using ex_iface_merge by blast
  from merged_interfaces_union_by_name[OF m] ex_iface_ordered obtain fs ifaces where
    k: "m_kind m = ObjectKind fs ifaces"
    and n: "set (map ref_name ifaces)
             = (\<Union>r \<in> set [10, 20]. ref_name ` set (interfacesOf (c_type (exIfaceStore r))))"
    and d: "distinct (map ref_name ifaces)"
    and l: "\<forall>i \<in> set ifaces.
               i = last (filter (\<lambda>j. ref_name j = ref_name i)
                          (concat (map (\<lambda>r. interfacesOf (c_type (exIfaceStore r))) [10, 20])))"
    by auto
  have all: "concat (map (\<lambda>r. interfacesOf (c_type (exIfaceStore r))) [10, 20])
               = [exIface ''A'' 1, exIface ''A'' 2, exIface ''B'' 3]"
    by (simp add: interfacesOf_def exIface_defs)
  from n have n': "set (map ref_name ifaces) = {''A'', ''B''}"
    by (auto simp: interfacesOf_def exIface_defs exIface_def)
  from l have l': "\<forall>i \<in> set ifaces.
               i = last (filter (\<lambda>j. ref_name j = ref_name i)
                          [exIface ''A'' 1, exIface ''A'' 2, exIface ''B'' 3])"
    by (simp only: all)
  have each: "\<forall>i \<in> set ifaces. ref_name i = ''A'' \<longrightarrow> i = exIface ''A'' 2"
  proof (intro ballI impI)
    fix i assume mem: "i \<in> set ifaces" and a: "ref_name i = ''A''"
    from l' mem have "i = last (filter (\<lambda>j. ref_name j = ref_name i)
                          [exIface ''A'' 1, exIface ''A'' 2, exIface ''B'' 3])"
      by blast
    then have "i = last (filter (\<lambda>j. ref_name j = ''A'')
                          [exIface ''A'' 1, exIface ''A'' 2, exIface ''B'' 3])"
      unfolding a .
    then show "i = exIface ''A'' 2" by (simp add: exIface_def)
  qed
  have "''A'' \<in> set (map ref_name ifaces)" unfolding n' by simp
  then obtain i where i: "''A'' = ref_name i" "i \<in> set ifaces"
    unfolding set_map by (rule imageE)
  from each i(2) i(1)[symmetric] have "i = exIface ''A'' 2" by blast
  with i(2) have a2: "exIface ''A'' 2 \<in> set ifaces" by simp
  have a1: "exIface ''A'' 1 \<notin> set ifaces"
    using each by (auto simp: exIface_def)
  from m k n' d a2 a1 show ?thesis by blast
qed

section \<open>C9: the extensions of a merged type\<close>

text \<open>
  C9 states that the merged extensions are the shallow merge of the candidates' extension
  objects, a later value overwriting an earlier one. One key behaves otherwise: a
  candidate whose extensions have an own property \<^verbatim>\<open>__proto__\<close> with the value 5, merged with
  a candidate whose extensions are \<^verbatim>\<open>{y: 3}\<close>, gives a type whose extensions have no such
  property.
\<close>

theorem merged_extensions_drop_proto_key:
  "extensionAt protoKey (c_type (exProto 10)) = Some (JNum 5)
   \<and> mergedExtensionAt protoKey (mergeCandidates exEnv exProto ''Foo'' [10, 20] None) = Inr None"
proof -
  have k: "constructor_of (c_type (exProto r)) = GraphQLObjectType" for r
    by (simp add: exProto_def exCandidate_def exType_def)
  have d: "mergeCandidates exEnv exProto ''Foo'' [10, 20] None
          = mergeObjectTypeCandidates exEnv exProto ''Foo'' [10, 20] None"
    by (simp add: mergeCandidates_def k del: constructor_of.simps)
  have c: "canonicalMarked exProto [10, 20] = []"
    by (simp add: canonicalMarked_def isCanonicalCandidate_def exProto_def exCandidate_def
        isSubschemaConfig_def)
  have o: "orderedTypeCandidates exProto [10, 20] None = Inr [10, 20]"
    by (simp add: ordered_default defaultOrdering_def typeMerger_char c)
  have f: "fieldConfigMapFromTypeCandidates exEnv (map exProto [10, 20]) None = Inr []"
    by (simp add: fieldConfigMapFromTypeCandidates_def fieldConfigCandidatesMap_def fieldsOf_def
        exProto_def exCandidate_def exType_def)
  have p: "pluck extensions (map exProto [10, 20])
             = [[protoKey \<mapsto> JNum 5, ''x'' \<mapsto> JNum 1], [''y'' \<mapsto> JNum 3]]"
    by (simp add: pluck_def exProto_def exCandidate_def exType_def)
  have a: "assignAll [[protoKey \<mapsto> JNum 5, ''x'' \<mapsto> JNum 1], [''y'' \<mapsto> JNum 3]] protoKey = None"
    by (rule assignAll_no_proto) (simp add: protoKey_def)
  have "extensionAt protoKey (c_type (exProto 10)) = Some (JNum 5)"
    by (simp add: extensionAt_def exProto_def exCandidate_def exType_def protoKey_def)
  moreover have "mergedExtensionAt protoKey (mergeCandidates exEnv exProto ''Foo'' [10, 20] None) = Inr None"
    using o f p a
    by (simp add: d mergeObjectTypeCandidates_def description_default defaultDescription_def
        Let_def mergedExtensionAt_def)
  ultimately show ?thesis by simp
qed

text \<open>
  C9 as amended: whenever \<^verbatim>\<open>mergeCandidates\<close> returns a type, its extensions are the
  extension objects of the candidates that have one, assigned in the order of the ordered
  list onto an empty object. Under every key other than \<^verbatim>\<open>__proto__\<close> the value is that of
  the last candidate in that order which defines the key, and such a key that no candidate
  defines is absent. The key \<^verbatim>\<open>__proto__\<close> is absent from the result unless some
  candidate's extensions give it the value \<^verbatim>\<open>null\<close>.
\<close>

theorem merged_extensions_shallow_merge:
  assumes "mergeCandidates env heap T refs opts = Inr m"
  shows "\<exists>ord. orderedTypeCandidates heap refs opts = Inr ord
           \<and> m_extensions m = assignAll (pluck extensions (map heap ord))
           \<and> (\<forall>k. k \<noteq> protoKey \<longrightarrow>
                 m_extensions m k =
                 (if filter (\<lambda>e. e k \<noteq> None) (pluck extensions (map heap ord)) = [] then None
                  else last (filter (\<lambda>e. e k \<noteq> None) (pluck extensions (map heap ord))) k))
           \<and> ((\<forall>e \<in> set (pluck extensions (map heap ord)). e protoKey \<noteq> Some JNull) \<longrightarrow>
                 m_extensions m protoKey = None)"
proof -
  from merge_common[OF assms] obtain ord where
    o: "orderedTypeCandidates heap refs opts = Inr ord"
    and x: "m_extensions m = assignAll (pluck extensions (map heap ord))"
    by blast
  from x have "\<forall>k. k \<noteq> protoKey \<longrightarrow> m_extensions m k =
                 (if filter (\<lambda>e. e k \<noteq> None) (pluck extensions (map heap ord)) = [] then None
                  else last (filter (\<lambda>e. e k \<noteq> None) (pluck extensions (map heap ord))) k)"
    by (simp add: assignAll_lookup)
  moreover from x have "(\<forall>e \<in> set (pluck extensions (map heap ord)). e protoKey \<noteq> Some JNull) \<longrightarrow>
                 m_extensions m protoKey = None"
    by (simp add: assignAll_no_proto)
  ultimately show ?thesis using o x by blast
qed

lemma ex_merge_plain:
  "\<exists>m. mergeCandidates exEnv exStore ''Foo'' [40, 20] None = Inr m"
proof -
  have "mergeCandidates exEnv exStore ''Foo'' [40, 20] None
          = mergeObjectTypeCandidates exEnv exStore ''Foo'' [40, 20] None"
    by (simp add: mergeCandidates_def ex_object del: constructor_of.simps)
  moreover have "orderedTypeCandidates exStore [40, 20] None = Inr [40, 20]"
    by (simp add: ordered_default defaultOrdering_def typeMerger_char canonicalMarked_def ex_canonical)
  moreover have "fieldConfigMapFromTypeCandidates exEnv (map exStore [40, 20]) None = Inr []"
    by (simp add: fieldConfigMapFromTypeCandidates_def fieldConfigCandidatesMap_def fieldsOf_def
        exStore_defs)
  ultimately show ?thesis
    by (simp add: mergeObjectTypeCandidates_def description_default defaultDescription_def Let_def)
qed

text \<open>
  The extensions \<^verbatim>\<open>{x: 1, y: 2}\<close> and \<^verbatim>\<open>{y: 3, z: 4}\<close> of two candidates in this order, neither
  canonical, merge to \<^verbatim>\<open>{x: 1, y: 3, z: 4}\<close>.
\<close>

theorem merged_extensions_shallow_merge_witness:
  "\<exists>m. mergeCandidates exEnv exStore ''Foo'' [40, 20] None = Inr m
      \<and> m_extensions m ''x'' = Some (JNum 1)
      \<and> m_extensions m ''y'' = Some (JNum 3)
      \<and> m_extensions m ''z'' = Some (JNum 4)
      \<and> m_extensions m ''w'' = None
      \<and> m_extensions m protoKey = None"
proof -
  obtain m where m: "mergeCandidates exEnv exStore ''Foo'' [40, 20] None = Inr m"
    using ex_merge_plain by blast
  have o: "orderedTypeCandidates exStore [40, 20] None = Inr [40, 20]"
    by (simp add: ordered_default defaultOrdering_def typeMerger_char canonicalMarked_def ex_canonical)
  have p: "pluck extensions (map exStore [40, 20])
             = [[''x'' \<mapsto> JNum 1, ''y'' \<mapsto> JNum 2], [''y'' \<mapsto> JNum 3, ''z'' \<mapsto> JNum 4]]"
    by (simp add: pluck_def exStore_defs)
  from merged_extensions_shallow_merge[OF m] o p
  have k: "\<forall>k. k \<noteq> protoKey \<longrightarrow> m_extensions m k =
      (if filter (\<lambda>e. e k \<noteq> None)
            [[''x'' \<mapsto> JNum 1, ''y'' \<mapsto> JNum 2], [''y'' \<mapsto> JNum 3, ''z'' \<mapsto> JNum 4]] = [] then None
       else last (filter (\<lambda>e. e k \<noteq> None)
            [[''x'' \<mapsto> JNum 1, ''y'' \<mapsto> JNum 2], [''y'' \<mapsto> JNum 3, ''z'' \<mapsto> JNum 4]]) k)"
    and n: "(\<forall>e \<in> set [[''x'' \<mapsto> JNum 1, ''y'' \<mapsto> JNum 2], [''y'' \<mapsto> JNum 3, ''z'' \<mapsto> JNum 4]].
               e protoKey \<noteq> Some JNull) \<longrightarrow> m_extensions m protoKey = None"
    by auto
  have "m_extensions m ''x'' = Some (JNum 1)" using k[rule_format, of "''x''"] by (simp add: protoKey_def)
  moreover have "m_extensions m ''y'' = Some (JNum 3)" using k[rule_format, of "''y''"] by (simp add: protoKey_def)
  moreover have "m_extensions m ''z'' = Some (JNum 4)" using k[rule_format, of "''z''"] by (simp add: protoKey_def)
  moreover have "m_extensions m ''w'' = None" using k[rule_format, of "''w''"] by (simp add: protoKey_def)
  moreover have "m_extensions m protoKey = None" using n by (simp add: protoKey_def)
  ultimately show ?thesis using m by blast
qed

section \<open>C6: the functions and the URL of a merged scalar\<close>

lemmas exScalars_defs = exScalars_def exCandidate_def exType_def exScalar_def

lemma firstURL_None:
  "firstSpecifiedByURL cs = None \<Longrightarrow> \<forall>c \<in> set cs. falsyURL (specifiedByURLOf (c_type c))"
  by (induction cs) (auto simp: falsyURL_def split: option.splits if_splits)

lemma firstURL_Some:
  "firstSpecifiedByURL cs = Some url \<Longrightarrow>
     url \<noteq> [] \<and> (\<exists>pre c post. cs = pre @ c # post \<and> specifiedByURLOf (c_type c) = Some url
                    \<and> (\<forall>p \<in> set pre. falsyURL (specifiedByURLOf (c_type p))))"
proof (induction cs)
  case Nil
  then show ?case by simp
next
  case (Cons c cs)
  show ?case
  proof (cases "falsyURL (specifiedByURLOf (c_type c))")
    case True
    with Cons.prems have "firstSpecifiedByURL cs = Some url"
      by (auto simp: falsyURL_def)
    from Cons.IH[OF this] obtain pre d post where
      u: "url \<noteq> []" and s: "cs = pre @ d # post" and d: "specifiedByURLOf (c_type d) = Some url"
      and p: "\<forall>p \<in> set pre. falsyURL (specifiedByURLOf (c_type p))"
      by blast
    from s have "c # cs = (c # pre) @ d # post" by simp
    moreover from p True have "\<forall>p \<in> set (c # pre). falsyURL (specifiedByURLOf (c_type p))" by simp
    ultimately show ?thesis using u d by blast
  next
    case False
    with Cons.prems have h: "specifiedByURLOf (c_type c) = Some url" "url \<noteq> []"
      by (auto simp: falsyURL_def split: option.splits if_splits)
    have "c # cs = [] @ c # cs" by simp
    moreover have "\<forall>p \<in> set []. falsyURL (specifiedByURLOf (c_type p))" by simp
    ultimately show ?thesis using h by blast
  qed
qed

lemma last_plucked:
  "f (c_type c) = Some v \<Longrightarrow> lastOrUndefined (pluck f (pre @ [c])) = Some v"
  by (simp add: pluck_snoc lastOrUndefined_def)

lemma ex_scalars_plain: "\<not> isCanonicalCandidate (exScalars 20) \<and> \<not> isCanonicalCandidate (exScalars 40)"
  by (simp add: isCanonicalCandidate_def isSubschemaConfig_def exScalars_def exCandidate_def)

lemma ex_scalars_canonical: "isCanonicalCandidate (exScalars 10)"
  by (simp add: isCanonicalCandidate_def isSubschemaConfig_def exScalars_def exCandidate_def
      exSubschema_def typeIsCanonical_def mergeConfigOf_def exType_def)

lemma ex_scalars_ordered:
  "orderedTypeCandidates exScalars [10, 20] None = Inr [20, 10]"
  "orderedTypeCandidates exScalars [40, 20] None = Inr [40, 20]"
  by (simp_all add: ordered_default defaultOrdering_def typeMerger_char canonicalMarked_def
      ex_scalars_plain ex_scalars_canonical)

text \<open>
  C6 states that the three functions come from the last candidate and that
  \<^verbatim>\<open>specifiedByURL\<close> is the first non-null one in the original input order. The scalar
  merger reorders the candidates first and reads everything from the reordered list; and
  its loop stops at the first \<^verbatim>\<open>specifiedByURL\<close> that is truthy. With the canonical
  candidate (specified by \<^verbatim>\<open>a\<close>) first in the input and a plain one (specified by \<^verbatim>\<open>b\<close>)
  after it, the merged scalar is specified by \<^verbatim>\<open>b\<close>, and its functions are those of the
  canonical candidate, not of the last input candidate. With a first candidate whose
  \<^verbatim>\<open>specifiedByURL\<close> is the empty string, the merged scalar is specified by the second.
\<close>

theorem merged_scalar_url_not_input_order:
  "specifiedByURLOf (c_type (exScalars 10)) = Some ''a''
   \<and> serializeOf (c_type (exScalars 20)) = Some (Function 200)
   \<and> map_sum id m_kind (mergeScalarTypeCandidates exEnv exScalars ''Foo'' [10, 20] None)
       = Inr (ScalarKind (Some (Function 100)) (Some (Function 101)) (Some (Function 102)) (Some ''b''))
   \<and> specifiedByURLOf (c_type (exScalars 40)) = Some []
   \<and> map_sum id m_kind (mergeScalarTypeCandidates exEnv exScalars ''Foo'' [40, 20] None)
       = Inr (ScalarKind (Some (Function 200)) (Some (Function 201)) (Some (Function 202)) (Some ''b''))"
  by (simp add: mergeScalarTypeCandidates_def ex_scalars_ordered description_default
      defaultDescription_def Let_def pluck_def lastOrUndefined_def
      serializeOf_def parseValueOf_def parseLiteralOf_def specifiedByURLOf_def exScalars_defs)

text \<open>
  C6 as amended: whenever the scalar merger returns a type, then in the ordered list (the
  input with the chosen canonical candidate moved to the end) the serializer and each of the
  two parsers of the last candidate, where it has one, are those of the merged scalar; and
  the merged \<^verbatim>\<open>specifiedByURL\<close> is the first one in the ordered list that is neither absent
  nor empty: absent if there is none, and otherwise that of a candidate before which every
  candidate has none or the empty string.
\<close>

theorem merged_scalar_functions_and_url:
  assumes "mergeScalarTypeCandidates env heap T refs opts = Inr m"
  shows "\<exists>ord s pv pl u.
           orderedTypeCandidates heap refs opts = Inr ord
         \<and> m_kind m = ScalarKind s pv pl u
         \<and> (\<forall>pre c f. map heap ord = pre @ [c] \<longrightarrow>
               (serializeOf (c_type c) = Some f \<longrightarrow> s = Some f)
             \<and> (parseValueOf (c_type c) = Some f \<longrightarrow> pv = Some f)
             \<and> (parseLiteralOf (c_type c) = Some f \<longrightarrow> pl = Some f))
         \<and> (u = None \<longrightarrow> (\<forall>c \<in> set (map heap ord). falsyURL (specifiedByURLOf (c_type c))))
         \<and> (\<forall>url. u = Some url \<longrightarrow>
               url \<noteq> []
             \<and> (\<exists>pre c post. map heap ord = pre @ c # post
                    \<and> specifiedByURLOf (c_type c) = Some url
                    \<and> (\<forall>p \<in> set pre. falsyURL (specifiedByURLOf (c_type p)))))"
proof -
  from assms obtain ord where
    o: "orderedTypeCandidates heap refs opts = Inr ord"
    and k: "m_kind m = ScalarKind (lastOrUndefined (pluck serializeOf (map heap ord)))
                                  (lastOrUndefined (pluck parseValueOf (map heap ord)))
                                  (lastOrUndefined (pluck parseLiteralOf (map heap ord)))
                                  (firstSpecifiedByURL (map heap ord))"
    by (auto simp: mergeScalarTypeCandidates_def Let_def split: sum.splits)
  let ?cs = "map heap ord"
  have fns: "\<forall>pre c f. ?cs = pre @ [c] \<longrightarrow>
               (serializeOf (c_type c) = Some f \<longrightarrow> lastOrUndefined (pluck serializeOf ?cs) = Some f)
             \<and> (parseValueOf (c_type c) = Some f \<longrightarrow> lastOrUndefined (pluck parseValueOf ?cs) = Some f)
             \<and> (parseLiteralOf (c_type c) = Some f \<longrightarrow> lastOrUndefined (pluck parseLiteralOf ?cs) = Some f)"
    by (simp add: last_plucked)
  have un: "firstSpecifiedByURL ?cs = None \<longrightarrow>
              (\<forall>c \<in> set ?cs. falsyURL (specifiedByURLOf (c_type c)))"
    using firstURL_None by blast
  have us: "\<forall>url. firstSpecifiedByURL ?cs = Some url \<longrightarrow>
               url \<noteq> []
             \<and> (\<exists>pre c post. ?cs = pre @ c # post
                    \<and> specifiedByURLOf (c_type c) = Some url
                    \<and> (\<forall>p \<in> set pre. falsyURL (specifiedByURLOf (c_type p))))"
    using firstURL_Some by blast
  show ?thesis
    apply (intro exI conjI)
        apply (rule o)
       apply (rule k)
      apply (rule fns)
     apply (rule un)
    apply (rule us)
    done
qed

text \<open>
  Three scalars in the input order: one with the empty URL, the canonical one, a plain
  one. The canonical one is moved to the end; the merged functions are its functions and
  the merged URL is the plain candidate's.
\<close>

theorem merged_scalar_functions_and_url_witness:
  "map_sum id m_kind (mergeScalarTypeCandidates exEnv exScalars ''Foo'' [40, 10, 20] None)
     = Inr (ScalarKind (Some (Function 100)) (Some (Function 101)) (Some (Function 102)) (Some ''b''))"
proof -
  have o: "orderedTypeCandidates exScalars [40, 10, 20] None = Inr [40, 20, 10]"
    by (simp add: ordered_default defaultOrdering_def typeMerger_char canonicalMarked_def
      ex_scalars_plain ex_scalars_canonical)
  obtain m where m: "mergeScalarTypeCandidates exEnv exScalars ''Foo'' [40, 10, 20] None = Inr m"
    by (simp add: mergeScalarTypeCandidates_def o description_default defaultDescription_def Let_def)
  from merged_scalar_functions_and_url[OF m] o obtain s pv pl u where
    k: "m_kind m = ScalarKind s pv pl u"
    and f: "\<forall>pre c f. map exScalars [40, 20, 10] = pre @ [c] \<longrightarrow>
               (serializeOf (c_type c) = Some f \<longrightarrow> s = Some f)
             \<and> (parseValueOf (c_type c) = Some f \<longrightarrow> pv = Some f)
             \<and> (parseLiteralOf (c_type c) = Some f \<longrightarrow> pl = Some f)"
    and un: "u = None \<longrightarrow> (\<forall>c \<in> set (map exScalars [40, 20, 10]). falsyURL (specifiedByURLOf (c_type c)))"
    and us: "\<forall>url. u = Some url \<longrightarrow>
               url \<noteq> []
             \<and> (\<exists>pre c post. map exScalars [40, 20, 10] = pre @ c # post
                    \<and> specifiedByURLOf (c_type c) = Some url
                    \<and> (\<forall>p \<in> set pre. falsyURL (specifiedByURLOf (c_type p))))"
    by auto
  have sp: "map exScalars [40, 20, 10] = [exScalars 40, exScalars 20] @ [exScalars 10]" by simp
  have s: "s = Some (Function 100)"
    using f[rule_format, OF sp, THEN conjunct1, of "Function 100"]
    by (simp add: serializeOf_def exScalars_defs)
  have pv: "pv = Some (Function 101)"
    using f[rule_format, OF sp, THEN conjunct2, THEN conjunct1, of "Function 101"]
    by (simp add: parseValueOf_def exScalars_defs)
  have pl: "pl = Some (Function 102)"
    using f[rule_format, OF sp, THEN conjunct2, THEN conjunct2, of "Function 102"]
    by (simp add: parseLiteralOf_def exScalars_defs)
  have urls: "specifiedByURLOf (c_type (exScalars 40)) = Some []"
             "specifiedByURLOf (c_type (exScalars 20)) = Some ''b''"
             "specifiedByURLOf (c_type (exScalars 10)) = Some ''a''"
    by (simp_all add: specifiedByURLOf_def exScalars_defs)
  have nn: "u \<noteq> None"
  proof
    assume "u = None"
    with un have "falsyURL (specifiedByURLOf (c_type (exScalars 20)))" by simp
    then show False by (simp add: urls falsyURL_def)
  qed
  then obtain url where url: "u = Some url" by auto
  from us url obtain pre c post where
    d: "map exScalars [40, 20, 10] = pre @ c # post"
    and c: "specifiedByURLOf (c_type c) = Some url" and ne: "url \<noteq> []"
    and p: "\<forall>p \<in> set pre. falsyURL (specifiedByURLOf (c_type p))"
    by blast
  have "url = ''b''"
  proof (cases pre)
    case Nil
    with d have "c = exScalars 40" by simp
    with c ne urls show ?thesis by simp
  next
    case (Cons a pre')
    with d have a: "a = exScalars 40" and d': "[exScalars 20, exScalars 10] = pre' @ c # post" by simp_all
    show ?thesis
    proof (cases pre')
      case Nil
      with d' have "c = exScalars 20" by simp
      with c urls show ?thesis by simp
    next
      case (Cons b pre'')
      with d' have "b = exScalars 20" by simp
      with p \<open>pre = a # pre'\<close> Cons have "falsyURL (specifiedByURLOf (c_type (exScalars 20)))" by simp
      then show ?thesis by (simp add: urls falsyURL_def)
    qed
  qed
  with k s pv pl url m show ?thesis by simp
qed

section \<open>C8: merging a single candidate\<close>





















end
